theory Spec2Isabelle
  imports Complex_Main "HOL-Library.Product_Lexorder" "HOL-Library.Multiset"
begin

section \<open>Conventions of the embedding\<close>

text \<open>
  The Python sources are embedded shallowly.
  \<^item> A Python \<^verbatim>\<open>float\<close> is a \<^typ>\<open>real\<close>, the value of a finite double. Comparison,
    negation and \<^verbatim>\<open>max\<close> of finite doubles agree with the reals. A sum, product or
    quotient of floats is the exact result rounded to the nearest double (\<open>fl\<close>, see
    below); a decimal literal of the source that is no double and enters arithmetic, such
    as \<^verbatim>\<open>1.2\<close>, is \<open>fl\<close> of it. NaN, infinities and overflow are outside the model.
  \<^item> A Python \<^verbatim>\<open>int\<close> is an \<^typ>\<open>int\<close>; a length or a counter that only grows from
    zero is a \<^typ>\<open>nat\<close>.
  \<^item> A Python \<^verbatim>\<open>str\<close> that is matched against a regular expression is the list of its
    Unicode code points (\<open>pystr\<close>); \<open>ascii\<close> writes an ASCII literal in that
    form.
  \<^item> An open \<^verbatim>\<open>Dict[str, Any]\<close> of metadata is a map from the key to a scalar Python
    value (\<open>pyval\<close>).
  \<^item> A raised exception is the left injection of a sum type.
\<close>

type_synonym pystr = "nat list"

definition ascii :: "string \<Rightarrow> pystr" where
  "ascii s = map of_char s"

datatype pyval = PNone | PBool bool | PInt int | PFloat real | PStr pystr

type_synonym metadata = "string \<rightharpoonup> pyval"

datatype py_error = TypeError | RuntimeError

section \<open>Double precision arithmetic\<close>

text \<open>
  Rounding to binary64, to nearest with ties to even. A positive value is written as
  \<open>m * u\<close> with \<open>u\<close> a power of two and \<open>2 ^ 52 \<le> m < 2 ^ 53\<close> (for subnormal
  values \<open>u = 2 ^ -1074\<close> and \<open>m\<close> is smaller), and \<open>m\<close> is rounded to an integer.
\<close>

definition round_half_even :: "real \<Rightarrow> int" where
  "round_half_even x =
     (let f = \<lfloor>x\<rfloor>; d = x - of_int f
      in if d < 1 / 2 then f else if 1 / 2 < d then f + 1 else if even f then f else f + 1)"

function scale_down :: "real \<Rightarrow> real \<Rightarrow> real \<times> real" where
  "scale_down m u = (if 2 ^ 53 \<le> m then scale_down (m / 2) (u * 2) else (m, u))"
  by pat_completeness auto
termination
proof (relation "measure (\<lambda>(m, u). nat \<lfloor>m\<rfloor>)")
  show "wf (measure (\<lambda>(m, u). nat \<lfloor>m\<rfloor>))" by simp
next
  fix m u :: real
  assume a: "2 ^ 53 \<le> m"
  have "m / 2 \<le> m - 1" using a by simp
  then have "\<lfloor>m / 2\<rfloor> \<le> \<lfloor>m - 1\<rfloor>" by (rule floor_mono)
  then have "\<lfloor>m / 2\<rfloor> < \<lfloor>m\<rfloor>" by simp
  moreover have "0 < \<lfloor>m\<rfloor>" using a by simp
  ultimately show "((m / 2, u * 2), (m, u)) \<in> measure (\<lambda>(m, u). nat \<lfloor>m\<rfloor>)"
    by simp
qed

function scale_up :: "nat \<Rightarrow> real \<Rightarrow> real \<Rightarrow> real \<times> real" where
  "scale_up n m u = (if m < 2 ^ 52 \<and> 0 < n then scale_up (n - 1) (m * 2) (u / 2) else (m, u))"
  by pat_completeness auto
termination
  by (relation "measure (\<lambda>(n, m, u). n)") auto

declare scale_down.simps [simp del] scale_up.simps [simp del]

definition fl :: "real \<Rightarrow> real" where
  "fl x =
     (if x = 0 then 0
      else let (m1, u1) = scale_down (\<bar>x\<bar> * 2 ^ 52) (1 / 2 ^ 52);
               (m2, u2) = scale_up 1022 m1 u1
           in sgn x * of_int (round_half_even m2) * u2)"

text \<open>
  \<^verbatim>\<open>sum(values)\<close> over floats: it starts from the integer 0 and adds from left to right,
  every addition rounded (CPython up to 3.11; later versions compensate the rounding
  errors inside \<^verbatim>\<open>sum\<close>).
\<close>

definition float_sum :: "real list \<Rightarrow> real" where
  "float_sum values = foldl (\<lambda>acc v. fl (acc + v)) 0 values"

section \<open>models/data\_models.py\<close>

datatype ContentType =
  TEXT | IMAGE | VECTOR | TABLE | HEADING | PARAGRAPH | LIST | FIGURE | UNKNOWN

datatype LayoutType =
  SINGLE_COLUMN | MULTI_COLUMN | COMPLEX | NEWSPAPER | LAYOUT_UNKNOWN

datatype OCRMode = TINY | SMALL | BASE | LARGE | GUNDAM

datatype RouteDecision = NATIVE | OCR | HYBRID

record BBox =
  x0 :: real
  y0 :: real
  x1 :: real
  y1 :: real

record TextBlock =
  tb_bbox :: BBox
  tb_text :: pystr
  tb_page_num :: int
  tb_type :: ContentType
  tb_font_name :: "pystr option"
  tb_font_size :: "real option"
  tb_is_bold :: bool
  tb_is_italic :: bool
  tb_metadata :: metadata

text \<open>
  \<^verbatim>\<open>TextBlock.__post_init__\<close>: the test \<^verbatim>\<open>self.font_size and self.font_size > 14\<close>
  is false for \<^verbatim>\<open>None\<close> and for \<^verbatim>\<open>0.0\<close>.
\<close>

definition TextBlock_post_init :: "TextBlock \<Rightarrow> TextBlock" where
  "TextBlock_post_init self =
     (if (case tb_font_size self of None \<Rightarrow> False | Some fs \<Rightarrow> fs \<noteq> 0 \<and> fs > 14)
      then self\<lparr>tb_type := HEADING\<rparr>
      else self\<lparr>tb_type := PARAGRAPH\<rparr>)"

text \<open>
  The generated \<^verbatim>\<open>__init__\<close> of the dataclass stores the arguments (the caller's or
  the defaults) and then runs \<^verbatim>\<open>__post_init__\<close>.
\<close>

definition new_TextBlock ::
  "BBox \<Rightarrow> pystr \<Rightarrow> int \<Rightarrow> ContentType \<Rightarrow> pystr option \<Rightarrow> real option \<Rightarrow> bool \<Rightarrow> bool
     \<Rightarrow> metadata \<Rightarrow> TextBlock" where
  "new_TextBlock bb txt pn ty fname fsize bold italic md =
     TextBlock_post_init
       \<lparr>tb_bbox = bb, tb_text = txt, tb_page_num = pn, tb_type = ty, tb_font_name = fname,
        tb_font_size = fsize, tb_is_bold = bold, tb_is_italic = italic, tb_metadata = md\<rparr>"

record PageMetadata =
  pm_page_num :: int
  pm_width :: real
  pm_height :: real
  pm_rotation :: int
  has_text_layer :: bool
  text_density :: int
  layout_type :: LayoutType
  image_count :: int
  drawing_count :: int
  table_count :: int
  bbox_coverage :: real

section \<open>core/router.py\<close>

text \<open>
  The thresholds of the router are only compared with. For a double \<open>c\<close> the test
  \<^verbatim>\<open>c > 0.3\<close> of the source, against the double nearest to 0.3, which lies below 0.3,
  decides as \<open>c > 0.3\<close> does, since no double lies between the two; 0.5 is a double.
\<close>

definition BBOX_COVERAGE_LOW :: real where "BBOX_COVERAGE_LOW = 0.3"
definition BBOX_COVERAGE_HIGH :: real where "BBOX_COVERAGE_HIGH = 0.5"
definition TEXT_DENSITY_VERY_HIGH :: int where "TEXT_DENSITY_VERY_HIGH = 5000"
definition MODE_TINY_MAX :: int where "MODE_TINY_MAX = 500"
definition MODE_SMALL_MAX :: int where "MODE_SMALL_MAX = 1000"
definition MODE_BASE_MAX :: int where "MODE_BASE_MAX = 2500"
definition MODE_LARGE_MAX :: int where "MODE_LARGE_MAX = 5000"

text \<open>
  The reason of a decision is an f-string; the model keeps which template was used and
  the values interpolated into it.
\<close>

datatype route_reason =
  NoTextLayer
  | NewspaperLayout
  | ComplexLayout LayoutType
  | HighCoverage real
  | HybridGraphics int int
  | VeryHighDensity int
  | StandardPdf LayoutType int

text \<open>\<^verbatim>\<open>ContentRouter._select_ocr_mode\<close>; the first argument is \<^verbatim>\<open>self.prioritize_accuracy\<close>.\<close>

definition select_ocr_mode :: "bool \<Rightarrow> int \<Rightarrow> LayoutType \<Rightarrow> OCRMode" where
  "select_ocr_mode prioritize_accuracy density layout =
     (if layout = NEWSPAPER then GUNDAM
      else if prioritize_accuracy then
        (if density \<le> MODE_SMALL_MAX then BASE
         else if density \<le> MODE_BASE_MAX then BASE
         else if density \<le> MODE_LARGE_MAX then LARGE
         else GUNDAM)
      else
        (if density \<le> MODE_TINY_MAX then TINY
         else if density \<le> MODE_SMALL_MAX then SMALL
         else if density \<le> MODE_BASE_MAX then BASE
         else if density \<le> MODE_LARGE_MAX then LARGE
         else GUNDAM))"

text \<open>
  \<^verbatim>\<open>ContentRouter._apply_routing_rules\<close>: the rules in the order of the source. Rule 5
  returns only when \<^verbatim>\<open>prioritize_accuracy\<close> holds (the inner \<^verbatim>\<open>if\<close>); otherwise
  control falls through to rule 6.
\<close>

definition apply_routing_rules ::
  "bool \<Rightarrow> PageMetadata \<Rightarrow> RouteDecision \<times> OCRMode option \<times> route_reason" where
  "apply_routing_rules prioritize_accuracy meta =
     (if \<not> has_text_layer meta then
        (OCR, Some (select_ocr_mode prioritize_accuracy (text_density meta) (layout_type meta)),
         NoTextLayer)
      else if layout_type meta = NEWSPAPER then
        (OCR, Some GUNDAM, NewspaperLayout)
      else if layout_type meta = COMPLEX then
        (OCR, Some (select_ocr_mode prioritize_accuracy (text_density meta) (layout_type meta)),
         ComplexLayout (layout_type meta))
      else if bbox_coverage meta > BBOX_COVERAGE_HIGH then
        (OCR, Some (select_ocr_mode prioritize_accuracy (text_density meta) (layout_type meta)),
         HighCoverage (bbox_coverage meta))
      else if bbox_coverage meta > BBOX_COVERAGE_LOW
              \<and> (image_count meta > 0 \<or> drawing_count meta > 5)
              \<and> prioritize_accuracy then
        (HYBRID, Some (select_ocr_mode prioritize_accuracy (text_density meta) (layout_type meta)),
         HybridGraphics (image_count meta) (drawing_count meta))
      else if prioritize_accuracy \<and> text_density meta > TEXT_DENSITY_VERY_HIGH then
        (OCR, Some (select_ocr_mode prioritize_accuracy (text_density meta) (layout_type meta)),
         VeryHighDensity (text_density meta))
      else
        (NATIVE, None, StandardPdf (layout_type meta) (text_density meta)))"

text \<open>The page of the routing scenario; the fields the scenario leaves open are parameters.\<close>

definition scenario_page :: "int \<Rightarrow> real \<Rightarrow> real \<Rightarrow> int \<Rightarrow> int \<Rightarrow> int \<Rightarrow> int \<Rightarrow> PageMetadata" where
  "scenario_page pn w h rot imgs draws tabs =
     \<lparr>pm_page_num = pn, pm_width = w, pm_height = h, pm_rotation = rot,
      has_text_layer = True, text_density = 3000, layout_type = COMPLEX,
      image_count = imgs, drawing_count = draws, table_count = tabs, bbox_coverage = 0.2\<rparr>"

section \<open>ir/models.py and ir/builder.py\<close>

record IRBlock =
  ir_id :: pystr
  ir_type :: ContentType
  ir_content :: pystr
  ir_page :: int
  ir_bbox :: BBox
  ir_source :: pystr
  ir_confidence :: "real option"
  ir_metadata :: metadata

record IRRelation =
  rel_type :: string
  from_id :: pystr
  to_id :: pystr
  rel_metadata :: metadata

text \<open>\<^verbatim>\<open>IRBlock.get_position_key\<close>: the tuple is compared lexicographically.\<close>

definition get_position_key :: "IRBlock \<Rightarrow> int \<times> real \<times> real" where
  "get_position_key b = (ir_page b, - y1 (ir_bbox b), x0 (ir_bbox b))"

text \<open>
  \<^verbatim>\<open>IRBuilder._build_relations\<close>. Python's \<^verbatim>\<open>sorted\<close> is a stable sort, as is
  \<^const>\<open>sort_key\<close>. For the empty list \<^verbatim>\<open>range(len(sorted_blocks) - 1)\<close> is
  \<^verbatim>\<open>range(-1)\<close>, which is empty, as is \<open>[0..<0 - 1]\<close> over the naturals.
\<close>

definition build_relations :: "IRBlock list \<Rightarrow> IRRelation list" where
  "build_relations blocks =
     (let sorted_blocks = sort_key get_position_key blocks
      in map (\<lambda>i. \<lparr>rel_type = ''reading_order'',
                    from_id = ir_id (sorted_blocks ! i),
                    to_id = ir_id (sorted_blocks ! (i + 1)),
                    rel_metadata = [''sequence'' \<mapsto> PInt (int i)]\<rparr>)
           [0..<length sorted_blocks - 1])"

text \<open>The identifiers met when the relations are followed from the first one to the last.\<close>

definition chain_ids :: "IRRelation list \<Rightarrow> pystr list" where
  "chain_ids rels = (case rels of [] \<Rightarrow> [] | r # _ \<Rightarrow> from_id r # map to_id rels)"

definition mk_block :: "string \<Rightarrow> int \<Rightarrow> real \<Rightarrow> real \<Rightarrow> IRBlock" where
  "mk_block name pg ytop xleft =
     \<lparr>ir_id = ascii name, ir_type = PARAGRAPH, ir_content = [], ir_page = pg,
      ir_bbox = \<lparr>x0 = xleft, y0 = ytop - 10, x1 = xleft + 100, y1 = ytop\<rparr>,
      ir_source = ascii ''native'', ir_confidence = None, ir_metadata = Map.empty\<rparr>"

section \<open>core/analyzer.py\<close>

definition MULTI_COLUMN_GAP :: real where "MULTI_COLUMN_GAP = 50"

text \<open>
  One entry of \<^verbatim>\<open>page.get_text("dict")["blocks"]\<close>: its \<^verbatim>\<open>"type"\<close> (0 for text) and
  its \<^verbatim>\<open>"bbox"\<close>, a 4-tuple; \<open>None\<close> stands for a missing key (and for a false
  value of \<^verbatim>\<open>"bbox"\<close>).
\<close>

record PageBlock =
  pb_type :: "int option"
  pb_bbox :: "(real \<times> real \<times> real \<times> real) option"

text \<open>
  The loop of \<^verbatim>\<open>PageAnalyzer._detect_columns\<close> over \<^verbatim>\<open>sorted_coords[1:]\<close>, with the
  columns closed so far and the running column.
\<close>

fun merge_columns ::
  "(real \<times> real) list \<Rightarrow> (real \<times> real) list \<Rightarrow> real \<times> real \<Rightarrow> (real \<times> real) list" where
  "merge_columns [] columns current_col = columns @ [current_col]"
| "merge_columns ((a, b) # rest) columns (col_start, col_end) =
     (if a \<le> fl (col_end + MULTI_COLUMN_GAP)
      then merge_columns rest columns (col_start, max col_end b)
      else merge_columns rest (columns @ [(col_start, col_end)]) (a, b))"

definition detect_columns :: "(real \<times> real) list \<Rightarrow> real \<Rightarrow> (real \<times> real) list" where
  "detect_columns x_coords page_width =
     (if x_coords = [] then []
      else (case sort_key fst x_coords of
              [] \<Rightarrow> []
            | first_col # rest \<Rightarrow> merge_columns rest [] first_col))"

definition text_blocks_of :: "PageBlock list \<Rightarrow> PageBlock list" where
  "text_blocks_of blocks = filter (\<lambda>b. pb_type b = Some 0) blocks"

definition x_coords_of :: "PageBlock list \<Rightarrow> (real \<times> real) list" where
  "x_coords_of text_blocks =
     concat (map (\<lambda>b. case pb_bbox b of None \<Rightarrow> [] | Some (a, _, c, _) \<Rightarrow> [(a, c)]) text_blocks)"

text \<open>\<^verbatim>\<open>PageAnalyzer.detect_layout_type\<close> on the blocks of the page and its width.\<close>

definition detect_layout_type :: "PageBlock list \<Rightarrow> real \<Rightarrow> LayoutType" where
  "detect_layout_type blocks page_width =
     (if blocks = [] then LAYOUT_UNKNOWN
      else let text_blocks = text_blocks_of blocks in
        if length text_blocks < 2 then SINGLE_COLUMN
        else let x_coords = x_coords_of text_blocks in
          if x_coords = [] then LAYOUT_UNKNOWN
          else let columns = detect_columns x_coords page_width in
            if length columns = 1 then SINGLE_COLUMN
            else if length columns = 2 then MULTI_COLUMN
            else if length columns \<ge> 3 then
              (if length text_blocks > 10 then NEWSPAPER else COMPLEX)
            else SINGLE_COLUMN)"

text \<open>
  Columns each of which starts after the end of the one before plus the gap of 50, the sum
  being the one the code computes.
\<close>

fun separated :: "(real \<times> real) list \<Rightarrow> bool" where
  "separated [] = True"
| "separated [c] = True"
| "separated (c # d # cols) = (fl (snd c + 50) < fst d \<and> separated (d # cols))"

definition text_block_at :: "real \<Rightarrow> real \<Rightarrow> PageBlock" where
  "text_block_at a c = \<lparr>pb_type = Some 0, pb_bbox = Some (a, 0, c, 10)\<rparr>"

section \<open>Python values and strings\<close>

text \<open>Truth value of a scalar, as \<^verbatim>\<open>if v:\<close> tests it.\<close>

fun truthy :: "pyval \<Rightarrow> bool" where
  "truthy PNone = False"
| "truthy (PBool b) = b"
| "truthy (PInt i) = (i \<noteq> 0)"
| "truthy (PFloat r) = (r \<noteq> 0)"
| "truthy (PStr s) = (s \<noteq> [])"

text \<open>The number a value stands for in arithmetic and in comparisons with numbers.\<close>

fun num_of :: "pyval \<Rightarrow> real option" where
  "num_of PNone = None"
| "num_of (PBool b) = Some (if b then 1 else 0)"
| "num_of (PInt i) = Some (of_int i)"
| "num_of (PFloat r) = Some r"
| "num_of (PStr s) = None"

text \<open>
  A number in arithmetic: an \<^verbatim>\<open>int\<close> (a \<^verbatim>\<open>bool\<close> counts as 0 or 1) or a \<^verbatim>\<open>float\<close>.
  Adding two integers is exact; otherwise both are taken as floats and the sum is rounded.
\<close>

datatype pynum = NInt int | NFloat real

fun as_num :: "pyval \<Rightarrow> pynum option" where
  "as_num PNone = None"
| "as_num (PBool b) = Some (NInt (if b then 1 else 0))"
| "as_num (PInt i) = Some (NInt i)"
| "as_num (PFloat r) = Some (NFloat r)"
| "as_num (PStr s) = None"

fun to_float :: "pynum \<Rightarrow> real" where
  "to_float (NInt i) = fl (of_int i)"
| "to_float (NFloat r) = r"

fun py_add :: "pynum \<Rightarrow> pynum \<Rightarrow> pynum" where
  "py_add (NInt i) (NInt j) = NInt (i + j)"
| "py_add a b = NFloat (fl (to_float a + to_float b))"

text \<open>\<^verbatim>\<open>total / n\<close> for a positive length \<^verbatim>\<open>n\<close>: a float in both cases.\<close>

fun py_truediv :: "pynum \<Rightarrow> nat \<Rightarrow> real" where
  "py_truediv (NInt i) n = fl (of_int i / of_nat n)"
| "py_truediv (NFloat r) n = fl (r / fl (of_nat n))"

text \<open>
  \<^verbatim>\<open>sum(values)\<close>: starts from the integer 0, adds from left to right and raises TypeError
  at a value that is no number.
\<close>

fun py_sum :: "pynum \<Rightarrow> pyval list \<Rightarrow> py_error + pynum" where
  "py_sum acc [] = Inr acc"
| "py_sum acc (v # vs) =
     (case as_num v of None \<Rightarrow> Inl TypeError | Some x \<Rightarrow> py_sum (py_add acc x) vs)"

fun lex_le :: "nat list \<Rightarrow> nat list \<Rightarrow> bool" where
  "lex_le [] t = True"
| "lex_le (c # s) [] = False"
| "lex_le (c # s) (d # t) = (c < d \<or> (c = d \<and> lex_le s t))"

text \<open>
  \<^verbatim>\<open>a >= b\<close>: numbers compare by value, strings by code points, anything else raises
  TypeError.
\<close>

definition py_ge :: "pyval \<Rightarrow> pyval \<Rightarrow> py_error + bool" where
  "py_ge a b =
     (case (num_of a, num_of b) of
        (Some x, Some y) \<Rightarrow> Inr (x \<ge> y)
      | _ \<Rightarrow> (case (a, b) of (PStr s, PStr t) \<Rightarrow> Inr (lex_le t s) | _ \<Rightarrow> Inl TypeError))"

text \<open>
  \<^verbatim>\<open>str.isspace\<close> of one character, which is also what \<^verbatim>\<open>\s\<close> matches and what
  \<^verbatim>\<open>str.strip()\<close> removes.
\<close>

definition is_space :: "nat \<Rightarrow> bool" where
  "is_space c =
     ((9 \<le> c \<and> c \<le> 13) \<or> (28 \<le> c \<and> c \<le> 32) \<or> c = 133 \<or> c = 160 \<or> c = 5760
      \<or> (8192 \<le> c \<and> c \<le> 8202) \<or> c = 8232 \<or> c = 8233 \<or> c = 8239 \<or> c = 8287
      \<or> c = 12288)"

text \<open>
  The zero digits of the decimal digit ranges of Unicode 14 (category Nd, each range ten
  code points long): what \<^verbatim>\<open>\d\<close> matches in a \<^verbatim>\<open>str\<close> pattern.
\<close>

definition digit_zeros :: "nat list" where
  "digit_zeros =
     [48, 1632, 1776, 1984, 2406, 2534, 2662, 2790, 2918, 3046, 3174, 3302, 3430, 3558,
      3664, 3792, 3872, 4160, 4240, 6112, 6160, 6470, 6608, 6784, 6800, 6992, 7088, 7232,
      7248, 42528, 43216, 43264, 43472, 43504, 43600, 44016, 65296, 66720, 68912, 69734,
      69872, 69942, 70096, 70384, 70736, 70864, 71248, 71360, 71472, 71904, 72016, 72784,
      73040, 73120, 92768, 92864, 93008, 120782, 120792, 120802, 120812, 120822, 123200,
      123632, 125264, 130032]"

definition is_digit :: "nat \<Rightarrow> bool" where
  "is_digit c = list_ex (\<lambda>z. z \<le> c \<and> c \<le> z + 9) digit_zeros"

definition strip :: "pystr \<Rightarrow> pystr" where
  "strip s = rev (dropWhile is_space (rev (dropWhile is_space s)))"

section \<open>Regular expressions, as far as the patterns of the analyzer use them\<close>

text \<open>
  A pattern is a sequence of items: one character of a class, one or more characters of a
  class (\<^verbatim>\<open>+\<close>), or \<^verbatim>\<open>$\<close>. \<open>re_match\<close> is \<^verbatim>\<open>re.match\<close> read as a truth value: some
  prefix of the text matches the whole pattern, whatever the lengths the repetitions take.
  \<^verbatim>\<open>$\<close> matches at the end of the text and before a newline that ends it.
\<close>

datatype re_item = Chr "nat \<Rightarrow> bool" | Plus "nat \<Rightarrow> bool" | EndOfString

fun re_match :: "re_item list \<Rightarrow> pystr \<Rightarrow> bool" where
  "re_match [] s = True"
| "re_match (Chr P # items) [] = False"
| "re_match (Chr P # items) (c # cs) = (P c \<and> re_match items cs)"
| "re_match (Plus P # items) [] = False"
| "re_match (Plus P # items) (c # cs) =
     (P c \<and> (re_match (Plus P # items) cs \<or> re_match items cs))"
| "re_match (EndOfString # items) s = ((s = [] \<or> s = [10]) \<and> re_match items s)"

definition lit :: "pystr \<Rightarrow> re_item list" where
  "lit s = map (\<lambda>c. Chr (\<lambda>d. d = c)) s"

text \<open>
  The class of the Latin capitals A to Z and the Cyrillic capitals U+0410 to U+042F, which
  the source writes as one bracket expression.
\<close>

definition is_upper_letter :: "nat \<Rightarrow> bool" where
  "is_upper_letter c = ((65 \<le> c \<and> c \<le> 90) \<or> (1040 \<le> c \<and> c \<le> 1071))"

definition dot :: re_item where
  "dot = Chr (\<lambda>c. c = 46)"

section \<open>ir/structure\_analyzer.py\<close>

text \<open>
  \<^verbatim>\<open>HEADING_PATTERNS\<close>, in the order of the source. The three words are
  the Russian for chapter (5 letters), section (6 letters) and appendix (10 letters), given
  by their code points.
\<close>

definition HEADING_PATTERNS :: "re_item list list" where
  "HEADING_PATTERNS =
     [[Plus is_digit, dot, Plus is_space],
      [Plus is_digit, dot, Plus is_digit, Plus is_space],
      [Chr is_upper_letter, Plus (\<lambda>c. is_upper_letter c \<or> is_space c), EndOfString],
      lit [1043, 1083, 1072, 1074, 1072] @ [Plus is_space, Plus is_digit],
      lit [1056, 1072, 1079, 1076, 1077, 1083] @ [Plus is_space, Plus is_digit],
      lit [1055, 1088, 1080, 1083, 1086, 1078, 1077, 1085, 1080, 1077]
        @ [Plus is_space, Chr (\<lambda>c. is_upper_letter c \<or> is_digit c)]]"

text \<open>
  Heuristic 1 of \<^verbatim>\<open>_identify_headings\<close>: the first pattern that matches sets
  \<^verbatim>\<open>is_heading\<close>, the level follows the depth of the numbering, and the loop ends. The
  pair is (\<^verbatim>\<open>is_heading\<close>, \<^verbatim>\<open>heading_level\<close>), which starts as (False, 1).
\<close>

definition heuristic_patterns :: "pystr \<Rightarrow> bool \<times> int" where
  "heuristic_patterns text =
     (if list_ex (\<lambda>pattern. re_match pattern text) HEADING_PATTERNS then
        (True,
         if re_match [Plus is_digit, dot, Plus is_digit, dot, Plus is_digit] text then 3
         else if re_match [Plus is_digit, dot, Plus is_digit] text then 2
         else if re_match [Plus is_digit, dot] text then 1
         else 1)
      else (False, 1))"

text \<open>
  Heuristic 2: a font larger than the threshold; \<open>fs\<close> is the font size as a number. The
  products \<^verbatim>\<open>avg_font_size * 1.2\<close>, \<^verbatim>\<open>* 1.5\<close> and \<^verbatim>\<open>* 1.3\<close> are float products.
\<close>

definition heuristic_font :: "real \<Rightarrow> real \<Rightarrow> bool \<times> int \<Rightarrow> bool \<times> int" where
  "heuristic_font avg_font_size fs st =
     (let large_font_threshold = fl (avg_font_size * fl 1.2) in
      if fs > large_font_threshold then
        (True,
         if fs > fl (avg_font_size * 1.5) then 1
         else if fs > fl (avg_font_size * fl 1.3) then 2
         else 3)
      else st)"

text \<open>Heuristic 3: bold and short.\<close>

definition heuristic_bold :: "pyval \<Rightarrow> pystr \<Rightarrow> bool \<times> int \<Rightarrow> bool \<times> int" where
  "heuristic_bold is_bold text st =
     (if truthy is_bold \<and> length text < 100 then (True, min (snd st) 2) else st)"

text \<open>
  The body of the second loop of \<^verbatim>\<open>_identify_headings\<close> for one block. The comparison
  \<^verbatim>\<open>font_size > large_font_threshold\<close> raises TypeError when the value stored under
  \<^verbatim>\<open>"font_size"\<close> is no number (\<^verbatim>\<open>None\<close>, for one); the default of \<^verbatim>\<open>get\<close> applies
  only when the key is missing.
\<close>

definition identify_heading :: "real \<Rightarrow> IRBlock \<Rightarrow> py_error + IRBlock" where
  "identify_heading avg_font_size block =
     (if ir_type block \<noteq> TEXT \<and> ir_type block \<noteq> PARAGRAPH \<and> ir_type block \<noteq> HEADING
      then Inr block
      else
        let text = strip (ir_content block);
            font_size = (case ir_metadata block ''font_size'' of
                           None \<Rightarrow> PFloat avg_font_size | Some v \<Rightarrow> v);
            is_bold = (case ir_metadata block ''is_bold'' of
                         None \<Rightarrow> PBool False | Some v \<Rightarrow> v)
        in case num_of font_size of
             None \<Rightarrow> Inl TypeError
           | Some fs \<Rightarrow>
               let st = heuristic_bold is_bold text
                          (heuristic_font avg_font_size fs (heuristic_patterns text))
               in if fst st then
                    Inr (block\<lparr>ir_type := HEADING,
                               ir_metadata := (ir_metadata block)
                                 (''heading_level'' \<mapsto> PInt (snd st),
                                  ''original_type'' \<mapsto> PStr (ascii ''heading''))\<rparr>)
                  else Inr block)"

text \<open>The font sizes the first loop collects: of Text and Paragraph blocks, when true.\<close>

definition font_sizes_of :: "IRBlock list \<Rightarrow> pyval list" where
  "font_sizes_of blocks =
     concat (map (\<lambda>block.
       if ir_type block = TEXT \<or> ir_type block = PARAGRAPH then
         (case ir_metadata block ''font_size'' of
            None \<Rightarrow> []
          | Some v \<Rightarrow> if truthy v then [v] else [])
       else []) blocks)"

definition avg_font_size_of :: "IRBlock list \<Rightarrow> py_error + real" where
  "avg_font_size_of blocks =
     (let font_sizes = font_sizes_of blocks in
      if font_sizes = [] then Inr 12
      else (case py_sum (NInt 0) font_sizes of
              Inl e \<Rightarrow> Inl e
            | Inr sum_sizes \<Rightarrow> Inr (py_truediv sum_sizes (length font_sizes))))"

text \<open>A loop over the blocks that ends at the first exception.\<close>

fun map_err :: "('a \<Rightarrow> py_error + 'b) \<Rightarrow> 'a list \<Rightarrow> py_error + 'b list" where
  "map_err f [] = Inr []"
| "map_err f (x # xs) =
     (case f x of
        Inl e \<Rightarrow> Inl e
      | Inr y \<Rightarrow> (case map_err f xs of Inl e \<Rightarrow> Inl e | Inr ys \<Rightarrow> Inr (y # ys)))"

text \<open>
  \<^verbatim>\<open>StructureAnalyzer._identify_headings\<close> on \<^verbatim>\<open>ir.blocks\<close>; the blocks are separate
  objects, each with a metadata dictionary of its own, and the result is the list of the
  blocks after the in-place updates.
\<close>

definition identify_headings :: "IRBlock list \<Rightarrow> py_error + IRBlock list" where
  "identify_headings blocks =
     (case avg_font_size_of blocks of
        Inl e \<Rightarrow> Inl e
      | Inr avg_font_size \<Rightarrow> map_err (identify_heading avg_font_size) blocks)"

definition identify_headings_twice :: "IRBlock list \<Rightarrow> py_error + IRBlock list" where
  "identify_headings_twice blocks =
     (case identify_headings blocks of Inl e \<Rightarrow> Inl e | Inr blocks1 \<Rightarrow> identify_headings blocks1)"

text \<open>What a run assigns to a block: its type and its \<^verbatim>\<open>heading_level\<close>.\<close>

definition classification :: "IRBlock \<Rightarrow> ContentType \<times> pyval option" where
  "classification block = (ir_type block, ir_metadata block ''heading_level'')"

definition classifications :: "py_error + IRBlock list \<Rightarrow> py_error + (ContentType \<times> pyval option) list" where
  "classifications r = (case r of Inl e \<Rightarrow> Inl e | Inr blocks \<Rightarrow> Inr (map classification blocks))"

text \<open>
  The loop \<^verbatim>\<open>while heading_stack and heading_stack[-1][0] >= level\<close> of
  \<^verbatim>\<open>_build_hierarchy\<close>. The stack is a list whose head is the top (the last element of
  the Python list).
\<close>

fun pop_headings :: "pyval \<Rightarrow> (pyval \<times> pystr) list \<Rightarrow> py_error + (pyval \<times> pystr) list" where
  "pop_headings level [] = Inr []"
| "pop_headings level ((l, block_id) # heading_stack) =
     (case py_ge l level of
        Inl e \<Rightarrow> Inl e
      | Inr ge \<Rightarrow> if ge then pop_headings level heading_stack
                  else Inr ((l, block_id) # heading_stack))"

text \<open>The body of the loop of \<^verbatim>\<open>_build_hierarchy\<close> for one block.\<close>

definition hierarchy_step ::
  "(pyval \<times> pystr) list \<Rightarrow> IRBlock \<Rightarrow> py_error + (pyval \<times> pystr) list \<times> IRBlock" where
  "hierarchy_step heading_stack block =
     (if ir_type block = HEADING then
        let level = (case ir_metadata block ''heading_level'' of None \<Rightarrow> PInt 1 | Some v \<Rightarrow> v)
        in case pop_headings level heading_stack of
             Inl e \<Rightarrow> Inl e
           | Inr stack' \<Rightarrow>
               Inr ((level, ir_id block) # stack',
                    (case stack' of
                       [] \<Rightarrow> block
                     | (_, parent_id) # _ \<Rightarrow>
                         block\<lparr>ir_metadata := (ir_metadata block)
                                  (''parent_heading'' \<mapsto> PStr parent_id)\<rparr>))
      else
        Inr (heading_stack,
             (case heading_stack of
                [] \<Rightarrow> block
              | (_, parent_id) # _ \<Rightarrow>
                  block\<lparr>ir_metadata := (ir_metadata block)
                           (''parent_heading'' \<mapsto> PStr parent_id)\<rparr>)))"

fun hierarchy_loop :: "(pyval \<times> pystr) list \<Rightarrow> IRBlock list \<Rightarrow> py_error + IRBlock list" where
  "hierarchy_loop heading_stack [] = Inr []"
| "hierarchy_loop heading_stack (block # blocks) =
     (case hierarchy_step heading_stack block of
        Inl e \<Rightarrow> Inl e
      | Inr (stack', block') \<Rightarrow>
          (case hierarchy_loop stack' blocks of
             Inl e \<Rightarrow> Inl e
           | Inr blocks' \<Rightarrow> Inr (block' # blocks')))"

text \<open>\<^verbatim>\<open>StructureAnalyzer._build_hierarchy\<close> on \<^verbatim>\<open>ir.blocks\<close>.\<close>

definition build_hierarchy :: "IRBlock list \<Rightarrow> py_error + IRBlock list" where
  "build_hierarchy blocks = hierarchy_loop [] blocks"

text \<open>Blocks for the examples: a paragraph with a font size, and a heading with a level.\<close>

definition para :: "string \<Rightarrow> string \<Rightarrow> metadata \<Rightarrow> IRBlock" where
  "para name content md =
     \<lparr>ir_id = ascii name, ir_type = PARAGRAPH, ir_content = ascii content, ir_page = 1,
      ir_bbox = \<lparr>x0 = 0, y0 = 0, x1 = 100, y1 = 10\<rparr>,
      ir_source = ascii ''native'', ir_confidence = None, ir_metadata = md\<rparr>"

definition heading :: "string \<Rightarrow> int \<Rightarrow> IRBlock" where
  "heading name level =
     \<lparr>ir_id = ascii name, ir_type = HEADING, ir_content = ascii name, ir_page = 1,
      ir_bbox = \<lparr>x0 = 0, y0 = 0, x1 = 100, y1 = 10\<rparr>,
      ir_source = ascii ''native'', ir_confidence = None,
      ir_metadata = [''heading_level'' \<mapsto> PInt level]\<rparr>"

definition fonts_14_10_10_10 :: "IRBlock list" where
  "fonts_14_10_10_10 =
     [para ''b1'' ''alpha'' [''font_size'' \<mapsto> PFloat 14, ''is_bold'' \<mapsto> PBool False],
      para ''b2'' ''beta'' [''font_size'' \<mapsto> PFloat 10, ''is_bold'' \<mapsto> PBool False],
      para ''b3'' ''gamma'' [''font_size'' \<mapsto> PFloat 10, ''is_bold'' \<mapsto> PBool False],
      para ''b4'' ''delta'' [''font_size'' \<mapsto> PFloat 10, ''is_bold'' \<mapsto> PBool False]]"

text \<open>A bold paragraph whose font size is the double 14.4, for a document of mean 12.\<close>

definition bold_14_4 :: IRBlock where
  "bold_14_4 =
     para ''b1'' ''Intro'' [''font_size'' \<mapsto> PFloat (fl 14.4), ''is_bold'' \<mapsto> PBool True]"

definition bold_intro :: IRBlock where
  "bold_intro = para ''b1'' ''Intro'' [''font_size'' \<mapsto> PFloat 12, ''is_bold'' \<mapsto> PBool True]"

section \<open>extractors/ocr\_client.py\<close>

record ImageBlock =
  ib_bbox :: BBox
  ib_image_data :: "nat list"
  ib_format :: pystr
  ib_page_num :: int
  ib_type :: ContentType
  ib_width :: "int option"
  ib_height :: "int option"
  ib_xref :: "int option"
  ib_needs_ocr :: bool
  ib_metadata :: metadata

record DrawingBlock =
  db_bbox :: BBox
  db_drawing_data :: metadata
  db_page_num :: int
  db_type :: ContentType
  db_image_data :: "nat list option"
  db_needs_ocr :: bool
  db_metadata :: metadata

record TableBlock =
  tab_bbox :: BBox
  tab_html :: pystr
  tab_rows :: int
  tab_cols :: int
  tab_page_num :: int
  tab_type :: ContentType
  tab_data :: "pystr list list option"
  tab_source :: pystr
  tab_metadata :: metadata

record OCRBlock =
  ob_id :: pystr
  ob_type :: ContentType
  ob_content :: pystr
  ob_bbox :: BBox
  ob_page_num :: int
  ob_confidence :: real
  ob_source :: pystr
  ob_metadata :: metadata

record OCRResponse =
  resp_markdown :: pystr
  resp_blocks :: "OCRBlock list"
  resp_page_id :: int
  resp_vision_tokens_used :: int
  resp_text_tokens_generated :: int
  resp_mode :: OCRMode
  resp_confidence_avg :: real

text \<open>
  The JSON answer of the recognition service, as \<^verbatim>\<open>_parse_ocr_response\<close> reads it: every
  key may be missing (\<open>None\<close>), and a bounding box is a dictionary or a sequence.
\<close>

datatype bbox_data =
  BBoxDict "real option" "real option" "real option" "real option"
  | BBoxSeq "real list"

record BlockData =
  bd_id :: "pystr option"
  bd_type :: "pystr option"
  bd_content :: "pystr option"
  bd_bbox :: "bbox_data option"
  bd_confidence :: "real option"
  bd_metadata :: "metadata option"

record ResponseData =
  rd_markdown :: "pystr option"
  rd_blocks :: "BlockData list option"
  rd_raw_output :: "pystr option"

text \<open>\<^verbatim>\<open>ContentType(type_str)\<close>: the member with that value; \<open>None\<close> for ValueError.\<close>

definition content_type_of :: "pystr \<Rightarrow> ContentType option" where
  "content_type_of type_str =
     (if type_str = ascii ''text'' then Some TEXT
      else if type_str = ascii ''image'' then Some IMAGE
      else if type_str = ascii ''vector'' then Some VECTOR
      else if type_str = ascii ''table'' then Some TABLE
      else if type_str = ascii ''heading'' then Some HEADING
      else if type_str = ascii ''paragraph'' then Some PARAGRAPH
      else if type_str = ascii ''list'' then Some LIST
      else if type_str = ascii ''figure'' then Some FIGURE
      else if type_str = ascii ''unknown'' then Some UNKNOWN
      else None)"

definition get_or :: "'a option \<Rightarrow> 'a \<Rightarrow> 'a" where
  "get_or v d = (case v of None \<Rightarrow> d | Some a \<Rightarrow> a)"

text \<open>\<^verbatim>\<open>BBox(*bbox_data)\<close> raises TypeError unless the sequence has four elements.\<close>

definition parse_bbox :: "bbox_data option \<Rightarrow> py_error + BBox" where
  "parse_bbox bbox_data =
     (case get_or bbox_data (BBoxDict None None None None) of
        BBoxDict a b c d \<Rightarrow>
          Inr \<lparr>x0 = get_or a 0, y0 = get_or b 0, x1 = get_or c 0, y1 = get_or d 0\<rparr>
      | BBoxSeq [a, b, c, d] \<Rightarrow> Inr \<lparr>x0 = a, y0 = b, x1 = c, y1 = d\<rparr>
      | BBoxSeq _ \<Rightarrow> Inl TypeError)"

definition parse_block :: "int \<Rightarrow> BlockData \<Rightarrow> py_error + OCRBlock" where
  "parse_block page_num block_data =
     (case parse_bbox (bd_bbox block_data) of
        Inl e \<Rightarrow> Inl e
      | Inr bbox \<Rightarrow>
          Inr \<lparr>ob_id = get_or (bd_id block_data) [],
               ob_type = get_or (content_type_of (get_or (bd_type block_data) (ascii ''paragraph'')))
                           PARAGRAPH,
               ob_content = get_or (bd_content block_data) [],
               ob_bbox = bbox,
               ob_page_num = page_num,
               ob_confidence = get_or (bd_confidence block_data) 1.0,
               ob_source = ascii ''ocr'',
               ob_metadata = get_or (bd_metadata block_data) Map.empty\<rparr>)"

text \<open>The number of words of \<^verbatim>\<open>s.split()\<close>; the flag tells whether a word is open.\<close>

fun count_words :: "bool \<Rightarrow> pystr \<Rightarrow> nat" where
  "count_words in_word [] = 0"
| "count_words in_word (c # cs) =
     (if is_space c then count_words False cs
      else (if in_word then 0 else 1) + count_words True cs)"

text \<open>
  \<^verbatim>\<open>OCRClient._parse_ocr_response\<close>. The confidences are floats; their average is
  \<^verbatim>\<open>sum(confidences) / len(confidences)\<close> in float arithmetic.
\<close>

definition parse_ocr_response :: "ResponseData \<Rightarrow> int \<Rightarrow> py_error + OCRResponse" where
  "parse_ocr_response response_data page_num =
     (let markdown = get_or (rd_markdown response_data) [];
          blocks_data = get_or (rd_blocks response_data) [];
          raw_output = get_or (rd_raw_output response_data) []
      in case map_err (parse_block page_num) blocks_data of
           Inl e \<Rightarrow> Inl e
         | Inr ocr_blocks \<Rightarrow>
             let confidences = map (\<lambda>block_data. get_or (bd_confidence block_data) 1.0) blocks_data
             in Inr \<lparr>resp_markdown = markdown,
                     resp_blocks = ocr_blocks,
                     resp_page_id = page_num,
                     resp_vision_tokens_used = int (count_words False raw_output) div 2,
                     resp_text_tokens_generated = int (count_words False markdown),
                     resp_mode = BASE,
                     resp_confidence_avg =
                       (if confidences = [] then 1.0
                        else fl (float_sum confidences / fl (real (length confidences))))\<rparr>)"

section \<open>core/structure\_preserver.py\<close>

text \<open>
  The recognition collaborator behind \<^verbatim>\<open>ocr_client.ocr_figure\<close>: called with the image
  bytes, the page number and the bounding box (the prompt and the sizes are constants), it
  raises or returns a response (\<open>Returned None\<close> is a false value), and it may change
  a state of its own, so that two calls need not answer alike.
\<close>

datatype ocr_outcome = Raised | Returned "OCRResponse option"

type_synonym 's ocr_figure = "'s \<Rightarrow> nat list \<Rightarrow> int \<Rightarrow> BBox \<Rightarrow> ocr_outcome \<times> 's"

record Stats =
  total_images :: nat
  total_drawings :: nat
  ocr_processed :: nat
  ocr_skipped :: nat
  ocr_errors :: nat

text \<open>
  The preserver: its three attributes, and the state of the collaborator it talks to.
\<close>

record 's StructurePreserver =
  ocr_client :: "'s ocr_figure option"
  min_area :: real
  stats :: Stats
  ocr_state :: 's

definition zero_stats :: Stats where
  "zero_stats = \<lparr>total_images = 0, total_drawings = 0, ocr_processed = 0, ocr_skipped = 0,
                 ocr_errors = 0\<rparr>"

text \<open>\<^verbatim>\<open>StructurePreserver.__init__\<close> and \<^verbatim>\<open>reset_statistics\<close>.\<close>

definition new_StructurePreserver ::
  "'s ocr_figure option \<Rightarrow> real \<Rightarrow> 's \<Rightarrow> 's StructurePreserver" where
  "new_StructurePreserver client area s =
     \<lparr>ocr_client = client, min_area = area, stats = zero_stats, ocr_state = s\<rparr>"

definition reset_statistics :: "'s StructurePreserver \<Rightarrow> 's StructurePreserver" where
  "reset_statistics self = self\<lparr>stats := zero_stats\<rparr>"

text \<open>The blocks of a page: \<^verbatim>\<open>isinstance\<close> tells the classes apart.\<close>

datatype block =
  Text TextBlock
  | Image ImageBlock
  | Drawing DrawingBlock
  | Table TableBlock
  | Recognized OCRBlock

text \<open>\<^verbatim>\<open>"\n".join(parts)\<close> is \<open>join [10] parts\<close>.\<close>

fun join :: "pystr \<Rightarrow> pystr list \<Rightarrow> pystr" where
  "join sep [] = []"
| "join sep [s] = s"
| "join sep (s # t # parts) = s @ sep @ join sep (t # parts)"

text \<open>\<^verbatim>\<open>str(n)\<close> of an integer, for the identifier of a merged block.\<close>

fun digits10 :: "nat \<Rightarrow> pystr" where
  "digits10 n = (if n < 10 then [48 + n] else digits10 (n div 10) @ [48 + n mod 10])"

definition str_of_int :: "int \<Rightarrow> pystr" where
  "str_of_int i = (if i < 0 then 45 # digits10 (nat (- i)) else digits10 (nat i))"

text \<open>
  \<^verbatim>\<open>StructurePreserver._process_image_ocr\<close>. \<open>object_id\<close> is CPython's \<^verbatim>\<open>id()\<close> of
  the image block. Every exception of the call is caught.
\<close>

definition process_image_ocr ::
  "(ImageBlock \<Rightarrow> nat) \<Rightarrow> 's StructurePreserver \<Rightarrow> ImageBlock \<Rightarrow> int
     \<Rightarrow> OCRBlock option \<times> 's StructurePreserver" where
  "process_image_ocr object_id self image_block page_num =
     (case ocr_client self of
        None \<Rightarrow> (None, self)
      | Some ocr_figure \<Rightarrow>
          (case ocr_figure (ocr_state self) (ib_image_data image_block) page_num
                  (ib_bbox image_block) of
             (Raised, s) \<Rightarrow> (None, self\<lparr>ocr_state := s\<rparr>)
           | (Returned None, s) \<Rightarrow> (None, self\<lparr>ocr_state := s\<rparr>)
           | (Returned (Some ocr_response), s) \<Rightarrow>
               (case resp_blocks ocr_response of
                  [] \<Rightarrow> (None, self\<lparr>ocr_state := s\<rparr>)
                | first_block # _ \<Rightarrow>
                    (Some \<lparr>ob_id = ascii ''ocr_image_'' @ str_of_int page_num @ ascii ''_''
                                    @ str_of_int (int (object_id image_block)),
                           ob_type = ob_type first_block,
                           ob_content = join [10] (map ob_content (resp_blocks ocr_response)),
                           ob_bbox = ib_bbox image_block,
                           ob_page_num = page_num,
                           ob_confidence = resp_confidence_avg ocr_response,
                           ob_source = ascii ''ocr'',
                           ob_metadata =
                             [''source'' \<mapsto> PStr (ascii ''image_ocr''),
                              ''original_format'' \<mapsto> PStr (ib_format image_block),
                              ''markdown'' \<mapsto> PStr (resp_markdown ocr_response)]
                             ++ ob_metadata first_block\<rparr>,
                     self\<lparr>ocr_state := s\<rparr>))))"

text \<open>
  The body of the loop of \<^verbatim>\<open>process_structure\<close> for one block: the blocks it appends
  to \<^verbatim>\<open>processed_blocks\<close> and the preserver afterwards.
\<close>

definition process_block ::
  "(ImageBlock \<Rightarrow> nat) \<Rightarrow> int \<Rightarrow> 's StructurePreserver \<Rightarrow> block
     \<Rightarrow> block list \<times> 's StructurePreserver" where
  "process_block object_id page_num self b =
     (case b of
        Image image_block \<Rightarrow>
          if ib_needs_ocr image_block then
            let self1 = self\<lparr>stats := (stats self)\<lparr>total_images := total_images (stats self) + 1\<rparr>\<rparr>;
                (ocr_block, self2) = process_image_ocr object_id self1 image_block page_num
            in (case ocr_block of
                  Some ob \<Rightarrow>
                    ([Recognized ob],
                     self2\<lparr>stats := (stats self2)\<lparr>ocr_processed := ocr_processed (stats self2) + 1\<rparr>\<rparr>)
                | None \<Rightarrow>
                    ([b],
                     self2\<lparr>stats := (stats self2)\<lparr>ocr_errors := ocr_errors (stats self2) + 1\<rparr>\<rparr>))
          else ([b], self)
      | Drawing drawing_block \<Rightarrow> ([], self)
      | _ \<Rightarrow> ([b], self))"

fun process_blocks ::
  "(ImageBlock \<Rightarrow> nat) \<Rightarrow> int \<Rightarrow> 's StructurePreserver \<Rightarrow> block list
     \<Rightarrow> block list \<times> 's StructurePreserver" where
  "process_blocks object_id page_num self [] = ([], self)"
| "process_blocks object_id page_num self (b # rest) =
     (let (out1, self1) = process_block object_id page_num self b;
          (out2, self2) = process_blocks object_id page_num self1 rest
      in (out1 @ out2, self2))"

text \<open>\<^verbatim>\<open>StructurePreserver._get_position_key\<close>.\<close>

definition block_bbox :: "block \<Rightarrow> BBox" where
  "block_bbox b =
     (case b of Text t \<Rightarrow> tb_bbox t | Image i \<Rightarrow> ib_bbox i | Drawing d \<Rightarrow> db_bbox d
      | Table t \<Rightarrow> tab_bbox t | Recognized ob \<Rightarrow> ob_bbox ob)"

definition block_page_num :: "block \<Rightarrow> int" where
  "block_page_num b =
     (case b of Text t \<Rightarrow> tb_page_num t | Image i \<Rightarrow> ib_page_num i | Drawing d \<Rightarrow> db_page_num d
      | Table t \<Rightarrow> tab_page_num t | Recognized ob \<Rightarrow> ob_page_num ob)"

definition position_key :: "block \<Rightarrow> int \<times> real \<times> real" where
  "position_key b = (block_page_num b, - y1 (block_bbox b), x0 (block_bbox b))"

text \<open>\<^verbatim>\<open>StructurePreserver.process_structure\<close>.\<close>

definition process_structure ::
  "(ImageBlock \<Rightarrow> nat) \<Rightarrow> 's StructurePreserver \<Rightarrow> block list \<Rightarrow> int
     \<Rightarrow> block list \<times> 's StructurePreserver" where
  "process_structure object_id self page_blocks page_num =
     (let (processed_blocks, self') = process_blocks object_id page_num self page_blocks
      in (sort_key position_key processed_blocks, self'))"

text \<open>A sequence of calls on one preserver.\<close>

datatype call = ProcessStructure "block list" int | ResetStatistics

fun run_calls ::
  "(ImageBlock \<Rightarrow> nat) \<Rightarrow> 's StructurePreserver \<Rightarrow> call list \<Rightarrow> 's StructurePreserver" where
  "run_calls object_id self [] = self"
| "run_calls object_id self (ProcessStructure page_blocks page_num # calls) =
     run_calls object_id (snd (process_structure object_id self page_blocks page_num)) calls"
| "run_calls object_id self (ResetStatistics # calls) =
     run_calls object_id (reset_statistics self) calls"

text \<open>The recognition-flagged images of a page.\<close>

definition flagged :: "block \<Rightarrow> bool" where
  "flagged b = (case b of Image image_block \<Rightarrow> ib_needs_ocr image_block | _ \<Rightarrow> False)"

definition is_drawing :: "block \<Rightarrow> bool" where
  "is_drawing b = (case b of Drawing _ \<Rightarrow> True | _ \<Rightarrow> False)"

section \<open>Example inputs\<close>

text \<open>A stack entry whose level is an integer, and a block with its parent recorded.\<close>

definition int_entry :: "int \<times> pystr \<Rightarrow> pyval \<times> pystr" where
  "int_entry e = (PInt (fst e), snd e)"

definition with_parent :: "IRBlock \<Rightarrow> pystr \<Rightarrow> IRBlock" where
  "with_parent block parent_id =
     block\<lparr>ir_metadata := (ir_metadata block)(''parent_heading'' \<mapsto> PStr parent_id)\<rparr>"

definition parent_headings :: "py_error + IRBlock list \<Rightarrow> py_error + pyval option list" where
  "parent_headings r =
     (case r of Inl e \<Rightarrow> Inl e
      | Inr blocks \<Rightarrow> Inr (map (\<lambda>block. ir_metadata block ''parent_heading'') blocks))"

definition headings_1_2_3_2 :: "IRBlock list" where
  "headings_1_2_3_2 = [heading ''h1'' 1, heading ''h2'' 2, heading ''h3'' 3, heading ''h4'' 2]"

text \<open>
  Four blocks, in the order a, b, c, d: a alone on page 2 and highest of all; b low on page
  1; c and d on page 1 at one height, d to the left of c.
\<close>

definition four_blocks :: "IRBlock list" where
  "four_blocks =
     [mk_block ''a'' 2 900 10, mk_block ''b'' 1 100 50, mk_block ''c'' 1 800 300,
      mk_block ''d'' 1 800 20]"

text \<open>
  A page with three text columns, an image block that spans the gaps between them and a
  text block without a bounding box; and a page with one image and one text block.
\<close>

definition three_column_page :: "PageBlock list" where
  "three_column_page =
     [text_block_at 0 100,
      \<lparr>pb_type = Some 1, pb_bbox = Some (150, 0, 350, 10)\<rparr>,
      text_block_at 400 500,
      \<lparr>pb_type = Some 0, pb_bbox = None\<rparr>,
      text_block_at 200 300]"

definition image_and_text_page :: "PageBlock list" where
  "image_and_text_page =
     [\<lparr>pb_type = Some 1, pb_bbox = Some (0, 0, 100, 10)\<rparr>, text_block_at 400 500]"

definition numbered_then_plain :: "IRBlock list" where
  "numbered_then_plain =
     [para ''b1'' ''1. Scope'' [''font_size'' \<mapsto> PFloat 10],
      para ''b2'' ''beta'' [''font_size'' \<mapsto> PFloat 10]]"

text \<open>
  The counters agree: every counted image was merged or kept on error, none was skipped.
\<close>

definition counters_consistent :: "Stats \<Rightarrow> bool" where
  "counters_consistent st =
     (total_images st = ocr_processed st + ocr_errors st \<and> ocr_skipped st = 0)"

text \<open>
  The recognition of an image fails: there is no collaborator, or its call raises, or it
  returns nothing or a response without fragments. \<open>state_after_call\<close> is the state the
  collaborator is left in.
\<close>

definition call_fails :: "'s StructurePreserver \<Rightarrow> ImageBlock \<Rightarrow> int \<Rightarrow> bool" where
  "call_fails self image_block page_num =
     (case ocr_client self of
        None \<Rightarrow> True
      | Some ocr_figure \<Rightarrow>
          (case fst (ocr_figure (ocr_state self) (ib_image_data image_block) page_num
                       (ib_bbox image_block)) of
             Raised \<Rightarrow> True
           | Returned None \<Rightarrow> True
           | Returned (Some ocr_response) \<Rightarrow> resp_blocks ocr_response = []))"

definition state_after_call :: "'s StructurePreserver \<Rightarrow> ImageBlock \<Rightarrow> int \<Rightarrow> 's" where
  "state_after_call self image_block page_num =
     (case ocr_client self of
        None \<Rightarrow> ocr_state self
      | Some ocr_figure \<Rightarrow>
          snd (ocr_figure (ocr_state self) (ib_image_data image_block) page_num
                 (ib_bbox image_block)))"

text \<open>A block that the loop of \<^verbatim>\<open>process_structure\<close> appends as it is.\<close>

definition passes_through :: "block \<Rightarrow> bool" where
  "passes_through b = (\<not> flagged b \<and> \<not> is_drawing b)"

text \<open>A flagged image, a response with the fragments "A" and "B", and two collaborators.\<close>

definition placeholder :: ImageBlock where
  "placeholder =
     \<lparr>ib_bbox = \<lparr>x0 = 100, y0 = 200, x1 = 300, y1 = 400\<rparr>, ib_image_data = [137, 80, 78, 71],
      ib_format = ascii ''png'', ib_page_num = 0, ib_type = IMAGE, ib_width = Some 200,
      ib_height = Some 200, ib_xref = None, ib_needs_ocr = True, ib_metadata = Map.empty\<rparr>"

definition fragment :: "string \<Rightarrow> string \<Rightarrow> real \<Rightarrow> BlockData" where
  "fragment name content conf =
     \<lparr>bd_id = Some (ascii name), bd_type = Some (ascii ''figure''), bd_content = Some (ascii content),
      bd_bbox = Some (BBoxDict (Some 1) (Some 2) (Some 3) (Some 4)),
      bd_confidence = Some conf, bd_metadata = None\<rparr>"

definition two_fragments :: ResponseData where
  "two_fragments =
     \<lparr>rd_markdown = Some (ascii ''A B''),
      rd_blocks = Some [fragment ''ocr_block_0'' ''A'' (fl 0.9),
                        fragment ''ocr_block_1'' ''B'' (fl 0.7)],
      rd_raw_output = None\<rparr>"

definition three_fragments :: ResponseData where
  "three_fragments =
     \<lparr>rd_markdown = Some (ascii ''A B C''),
      rd_blocks = Some [fragment ''ocr_block_0'' ''A'' (fl 0.1),
                        fragment ''ocr_block_1'' ''B'' (fl 0.2),
                        fragment ''ocr_block_2'' ''C'' (fl 0.3)],
      rd_raw_output = None\<rparr>"

definition no_object_id :: "ImageBlock \<Rightarrow> nat" where
  "no_object_id image_block = 0"

definition merged_confidences :: "block list \<Rightarrow> real list" where
  "merged_confidences bs =
     concat (map (\<lambda>b. case b of Recognized ob \<Rightarrow> [ob_confidence ob] | _ \<Rightarrow> []) bs)"

definition answering :: "ResponseData \<Rightarrow> unit ocr_figure" where
  "answering response_data s image_data page_num bbox =
     (case parse_ocr_response response_data page_num of
        Inl e \<Rightarrow> (Raised, s)
      | Inr ocr_response \<Rightarrow> (Returned (Some ocr_response), s))"

definition raising :: "unit ocr_figure" where
  "raising s image_data page_num bbox = (Raised, s)"

definition title_block :: TextBlock where
  "title_block =
     new_TextBlock \<lparr>x0 = 50, y0 = 700, x1 = 500, y1 = 720\<rparr> (ascii ''Title'') 0 TEXT None
       (Some 12) False False Map.empty"

definition raising_preserver :: "unit StructurePreserver" where
  "raising_preserver = new_StructurePreserver (Some raising) 1000 ()"

definition answering_preserver :: "ResponseData \<Rightarrow> unit StructurePreserver" where
  "answering_preserver response_data =
     new_StructurePreserver (Some (answering response_data)) 1000 ()"

section \<open>Results\<close>

text \<open>The equations that evaluate \<open>fl\<close> at a given number.\<close>

lemmas fl_eval = fl_def scale_down.simps scale_up.simps round_half_even_def Let_def

subsection \<open>Content Router\<close>

text \<open>
  C2, as stated, fails: for the page with a text layer, Complex layout, density 3000 and
  coverage 0.2 under accuracy priority the router does not return the tier Base.
\<close>

theorem C2_tier_is_not_base:
  "fst (snd (apply_routing_rules True (scenario_page 0 595 842 0 0 0 0))) \<noteq> Some BASE"
  by (simp add: apply_routing_rules_def select_ocr_mode_def scenario_page_def
      MODE_SMALL_MAX_def MODE_BASE_MAX_def MODE_LARGE_MAX_def)

text \<open>
  C2, amended: for that page (whatever its remaining fields) under accuracy priority, rule 3
  (Complex layout) fires and the router returns the decision OCR with the tier Large,
  since 3000 exceeds the Base maximum 2500 and is within the Large maximum 5000.
\<close>

theorem C2_complex_3000_routes_to_ocr_large:
  "apply_routing_rules True (scenario_page pn w h rot imgs draws tabs)
     = (OCR, Some LARGE, ComplexLayout COMPLEX)"
  by (simp add: apply_routing_rules_def select_ocr_mode_def scenario_page_def
      MODE_SMALL_MAX_def MODE_BASE_MAX_def MODE_LARGE_MAX_def)

subsection \<open>TextBlock construction\<close>

text \<open>
  C10: whatever type the caller supplies, a freshly constructed TextBlock never has the
  type TEXT: it is HEADING when font\_size is set and greater than 14, and PARAGRAPH in
  every other case.
\<close>

theorem C10_textblock_type_never_text:
  "tb_type (new_TextBlock bb txt pn ty fname fsize bold italic md) \<noteq> TEXT
   \<and> tb_type (new_TextBlock bb txt pn ty fname fsize bold italic md)
       = (if (\<exists>r. fsize = Some r \<and> 14 < r) then HEADING else PARAGRAPH)"
  by (cases fsize) (auto simp: new_TextBlock_def TextBlock_post_init_def)

subsection \<open>IR Builder\<close>

lemma get_position_key_eq:
  "get_position_key = (\<lambda>b. (ir_page b, - y1 (ir_bbox b), x0 (ir_bbox b)))"
  by (rule ext) (simp add: get_position_key_def)

lemma build_relations_length:
  "length (build_relations blocks) = length blocks - 1"
  by (simp add: build_relations_def Let_def)

lemma build_relations_nth:
  assumes "i < length blocks - 1"
  shows "build_relations blocks ! i =
           \<lparr>rel_type = ''reading_order'',
            from_id = ir_id (sort_key get_position_key blocks ! i),
            to_id = ir_id (sort_key get_position_key blocks ! Suc i),
            rel_metadata = [''sequence'' \<mapsto> PInt (int i)]\<rparr>"
  using assms by (simp add: build_relations_def Let_def)

lemma chain_ids_nonempty:
  "rels \<noteq> [] \<Longrightarrow> chain_ids rels = from_id (rels ! 0) # map to_id rels"
  by (cases rels) (simp_all add: chain_ids_def)

lemma chain_ids_build_relations:
  assumes "2 \<le> length blocks"
  shows "chain_ids (build_relations blocks) = map ir_id (sort_key get_position_key blocks)"
proof -
  let ?sb = "sort_key get_position_key blocks"
  let ?rels = "build_relations blocks"
  have len: "length ?rels = length blocks - 1"
    by (rule build_relations_length)
  have ne: "?rels \<noteq> []"
    using assms len by auto
  have from0: "from_id (?rels ! 0) = ir_id (?sb ! 0)"
    using assms by (simp add: build_relations_nth)
  have tos: "map to_id ?rels = map ir_id (tl ?sb)"
  proof (rule nth_equalityI)
    show "length (map to_id ?rels) = length (map ir_id (tl ?sb))"
      by (simp add: len)
  next
    fix i assume "i < length (map to_id ?rels)"
    then have i: "i < length blocks - 1"
      by (simp add: len)
    then show "map to_id ?rels ! i = map ir_id (tl ?sb) ! i"
      by (simp add: len build_relations_nth nth_tl)
  qed
  have "blocks \<noteq> []"
    using assms by auto
  then have "?sb \<noteq> []"
    by (metis length_sort length_0_conv)
  then have "map ir_id ?sb = ir_id (?sb ! 0) # map ir_id (tl ?sb)"
    by (cases ?sb) auto
  then show ?thesis
    by (simp only: chain_ids_nonempty [OF ne] from0 tos)
qed

lemma sorted_keys_consecutive:
  fixes sb :: "IRBlock list"
  assumes "sorted (map (\<lambda>b. (ir_page b, - y1 (ir_bbox b), x0 (ir_bbox b))) sb)"
    and "Suc i < length sb"
  shows "ir_page (sb ! i) < ir_page (sb ! Suc i)
     \<or> (ir_page (sb ! i) = ir_page (sb ! Suc i)
        \<and> (y1 (ir_bbox (sb ! Suc i)) < y1 (ir_bbox (sb ! i))
           \<or> (y1 (ir_bbox (sb ! i)) = y1 (ir_bbox (sb ! Suc i))
              \<and> x0 (ir_bbox (sb ! i)) \<le> x0 (ir_bbox (sb ! Suc i)))))"
proof -
  let ?k = "\<lambda>b. (ir_page b, - y1 (ir_bbox b), x0 (ir_bbox b))"
  have "map ?k sb ! i \<le> map ?k sb ! Suc i"
    using assms by (intro sorted_nth_mono) simp_all
  then have "?k (sb ! i) \<le> ?k (sb ! Suc i)"
    using assms(2) by simp
  then show ?thesis
    by (auto simp: less_eq_prod_def less_prod_def)
qed

text \<open>
  C1: for every list of N blocks the relation construction works on the stable sort of the
  blocks by the key (page, -y1, x0), which is what get\_position\_key returns: the sorted
  list is a permutation of the blocks; of two neighbours in it the first is on an earlier
  page, or on the same page and higher (larger y1), or on the same page at the same height
  and not to the right (x0 not larger); blocks with equal keys keep their input order. It
  emits N-1 relations (none for an empty list), all of type reading\_order; relation i
  links the i-th sorted block to the (i+1)-th and carries the sequence number i. Followed
  from the first relation to the last, the relations visit the identifiers of the sorted
  blocks one after the other: every block once, and no identifier twice when the blocks'
  identifiers are distinct.
\<close>

theorem C1_reading_order_is_one_chain:
  fixes blocks :: "IRBlock list"
  shows
   "(let sb = sort_key (\<lambda>b. (ir_page b, - y1 (ir_bbox b), x0 (ir_bbox b))) blocks;
         rels = build_relations blocks
     in get_position_key block = (ir_page block, - y1 (ir_bbox block), x0 (ir_bbox block))
      \<and> mset sb = mset blocks
      \<and> sorted (map (\<lambda>b. (ir_page b, - y1 (ir_bbox b), x0 (ir_bbox b))) sb)
      \<and> (\<forall>i. Suc i < length sb \<longrightarrow>
            ir_page (sb ! i) < ir_page (sb ! Suc i)
            \<or> (ir_page (sb ! i) = ir_page (sb ! Suc i)
               \<and> (y1 (ir_bbox (sb ! Suc i)) < y1 (ir_bbox (sb ! i))
                  \<or> (y1 (ir_bbox (sb ! i)) = y1 (ir_bbox (sb ! Suc i))
                     \<and> x0 (ir_bbox (sb ! i)) \<le> x0 (ir_bbox (sb ! Suc i))))))
      \<and> (\<forall>k. filter (\<lambda>b. (ir_page b, - y1 (ir_bbox b), x0 (ir_bbox b)) = k) sb
              = filter (\<lambda>b. (ir_page b, - y1 (ir_bbox b), x0 (ir_bbox b)) = k) blocks)
      \<and> (blocks \<noteq> [] \<longrightarrow> Suc (length rels) = length blocks)
      \<and> (blocks = [] \<longrightarrow> rels = [])
      \<and> (\<forall>i < length rels.
            rels ! i =
              \<lparr>rel_type = ''reading_order'',
               from_id = ir_id (sb ! i),
               to_id = ir_id (sb ! Suc i),
               rel_metadata = [''sequence'' \<mapsto> PInt (int i)]\<rparr>)
      \<and> (\<forall>i. Suc i < length rels \<longrightarrow> to_id (rels ! i) = from_id (rels ! Suc i))
      \<and> (2 \<le> length blocks \<longrightarrow>
            chain_ids rels = map ir_id sb
            \<and> mset (chain_ids rels) = mset (map ir_id blocks)
            \<and> (distinct (map ir_id blocks) \<longrightarrow> distinct (chain_ids rels))))"
proof -
  let ?K = "\<lambda>b. (ir_page b, - y1 (ir_bbox b), x0 (ir_bbox b))"
  let ?sb = "sort_key ?K blocks"
  let ?rels = "build_relations blocks"
  have sb: "sort_key get_position_key blocks = ?sb"
    by (simp add: get_position_key_eq)
  have c1: "get_position_key block = (ir_page block, - y1 (ir_bbox block), x0 (ir_bbox block))"
    by (simp add: get_position_key_def)
  have c2: "mset ?sb = mset blocks"
    by simp
  have c3: "sorted (map ?K ?sb)"
    by (rule sorted_sort_key)
  have c4: "\<forall>i. Suc i < length ?sb \<longrightarrow>
            ir_page (?sb ! i) < ir_page (?sb ! Suc i)
            \<or> (ir_page (?sb ! i) = ir_page (?sb ! Suc i)
               \<and> (y1 (ir_bbox (?sb ! Suc i)) < y1 (ir_bbox (?sb ! i))
                  \<or> (y1 (ir_bbox (?sb ! i)) = y1 (ir_bbox (?sb ! Suc i))
                     \<and> x0 (ir_bbox (?sb ! i)) \<le> x0 (ir_bbox (?sb ! Suc i)))))"
    using c3 by (intro allI impI sorted_keys_consecutive)
  have c5: "\<forall>k. filter (\<lambda>b. ?K b = k) ?sb = filter (\<lambda>b. ?K b = k) blocks"
    by (intro allI sort_key_stable)
  have c6: "blocks \<noteq> [] \<longrightarrow> Suc (length ?rels) = length blocks"
    by (cases blocks) (simp_all add: build_relations_length)
  have c7: "blocks = [] \<longrightarrow> ?rels = []"
    by (simp add: build_relations_def Let_def)
  have c8: "\<forall>i < length ?rels.
            ?rels ! i =
              \<lparr>rel_type = ''reading_order'',
               from_id = ir_id (?sb ! i),
               to_id = ir_id (?sb ! Suc i),
               rel_metadata = [''sequence'' \<mapsto> PInt (int i)]\<rparr>"
    unfolding sb [symmetric] by (simp add: build_relations_length build_relations_nth)
  have c9: "\<forall>i. Suc i < length ?rels \<longrightarrow> to_id (?rels ! i) = from_id (?rels ! Suc i)"
    by (simp add: build_relations_length build_relations_nth)
  have c10: "2 \<le> length blocks \<longrightarrow>
            chain_ids ?rels = map ir_id ?sb
            \<and> mset (chain_ids ?rels) = mset (map ir_id blocks)
            \<and> (distinct (map ir_id blocks) \<longrightarrow> distinct (chain_ids ?rels))"
  proof
    assume two: "2 \<le> length blocks"
    have chain: "chain_ids ?rels = map ir_id ?sb"
      unfolding sb [symmetric] by (rule chain_ids_build_relations [OF two])
    have "mset (map ir_id ?sb) = mset (map ir_id blocks)"
      by simp
    then have ms: "mset (chain_ids ?rels) = mset (map ir_id blocks)"
      by (simp only: chain)
    have "distinct (map ir_id blocks) \<longrightarrow> distinct (chain_ids ?rels)"
      using ms by (metis mset_eq_imp_distinct_iff)
    with chain ms show "chain_ids ?rels = map ir_id ?sb
            \<and> mset (chain_ids ?rels) = mset (map ir_id blocks)
            \<and> (distinct (map ir_id blocks) \<longrightarrow> distinct (chain_ids ?rels))"
      by simp
  qed
  show ?thesis
    unfolding Let_def
    by (intro conjI) (rule c1, rule c2, rule c3, rule c4, rule c5, rule c6, rule c7, rule c8,
        rule c9, rule c10)
qed

text \<open>
  The four blocks a, b, c, d are read in the order d, c, b, a: page 1 before page 2, on
  page 1 the height 800 before the height 100, and at the height 800 the left block first.
\<close>

theorem C1_four_blocks_chain:
  "2 \<le> length four_blocks \<and> distinct (map ir_id four_blocks)
   \<and> map ir_id (sort_key (\<lambda>b. (ir_page b, - y1 (ir_bbox b), x0 (ir_bbox b))) four_blocks)
        = [ascii ''d'', ascii ''c'', ascii ''b'', ascii ''a'']
   \<and> length (build_relations four_blocks) = 3
   \<and> chain_ids (build_relations four_blocks)
        = [ascii ''d'', ascii ''c'', ascii ''b'', ascii ''a'']
   \<and> map from_id (build_relations four_blocks) = [ascii ''d'', ascii ''c'', ascii ''b'']
   \<and> map to_id (build_relations four_blocks) = [ascii ''c'', ascii ''b'', ascii ''a'']
   \<and> distinct (chain_ids (build_relations four_blocks))"
proof -
  let ?sb = "sort_key (\<lambda>b. (ir_page b, - y1 (ir_bbox b), x0 (ir_bbox b))) four_blocks"
  have two: "2 \<le> length four_blocks"
    by (simp add: four_blocks_def)
  have dist: "distinct (map ir_id four_blocks)"
    by (simp add: four_blocks_def mk_block_def ascii_def)
  have ne: "four_blocks \<noteq> []"
    by (simp add: four_blocks_def)
  have srt: "?sb = [mk_block ''d'' 1 800 20, mk_block ''c'' 1 800 300, mk_block ''b'' 1 100 50,
                    mk_block ''a'' 2 900 10]"
    by (simp add: four_blocks_def mk_block_def)
  have ids: "map ir_id ?sb = [ascii ''d'', ascii ''c'', ascii ''b'', ascii ''a'']"
    by (simp add: srt mk_block_def)
  note c1 = C1_reading_order_is_one_chain [where blocks = four_blocks and block = "mk_block ''a'' 2 900 10", unfolded Let_def]
  from c1 ne have "Suc (length (build_relations four_blocks)) = length four_blocks"
    by blast
  then have len: "length (build_relations four_blocks) = 3"
    by (simp add: four_blocks_def)
  from c1 two have "chain_ids (build_relations four_blocks) = map ir_id ?sb"
    by blast
  then have chain: "chain_ids (build_relations four_blocks)
                      = [ascii ''d'', ascii ''c'', ascii ''b'', ascii ''a'']"
    by (simp only: ids)
  from c1 have nth: "\<forall>i < length (build_relations four_blocks).
            build_relations four_blocks ! i =
              \<lparr>rel_type = ''reading_order'',
               from_id = ir_id (?sb ! i),
               to_id = ir_id (?sb ! Suc i),
               rel_metadata = [''sequence'' \<mapsto> PInt (int i)]\<rparr>"
    by blast
  have froms: "map from_id (build_relations four_blocks) = [ascii ''d'', ascii ''c'', ascii ''b'']"
    by (rule nth_equalityI) (auto simp: len nth srt mk_block_def less_Suc_eq numeral_3_eq_3)
  have tos: "map to_id (build_relations four_blocks) = [ascii ''c'', ascii ''b'', ascii ''a'']"
    by (rule nth_equalityI) (auto simp: len nth srt mk_block_def less_Suc_eq numeral_3_eq_3)
  from c1 two dist have "distinct (chain_ids (build_relations four_blocks))"
    by blast
  with two dist len chain ids froms tos show ?thesis
    by blast
qed

subsection \<open>Page Analyzer\<close>

lemma merge_columns_length:
  "Suc (length columns) \<le> length (merge_columns rest columns cur)"
  by (induction rest columns cur rule: merge_columns.induct) auto

lemma detect_columns_nonempty:
  assumes "x_coords \<noteq> []"
  shows "1 \<le> length (detect_columns x_coords w)"
proof -
  from assms have "sort_key fst x_coords \<noteq> []"
    by (metis length_sort length_0_conv)
  then obtain c rest where "sort_key fst x_coords = c # rest"
    by (cases "sort_key fst x_coords") auto
  then have "detect_columns x_coords w = merge_columns rest [] c"
    using assms by (simp add: detect_columns_def)
  moreover have "Suc (length ([] :: (real \<times> real) list)) \<le> length (merge_columns rest [] c)"
    by (rule merge_columns_length)
  ultimately show ?thesis
    by simp
qed

lemma separated_widen:
  "separated (cols @ [(s, e)]) \<Longrightarrow> separated (cols @ [(s, e')])"
  by (induction cols rule: separated.induct) auto

lemma separated_push:
  "separated (cols @ [(s, e)]) \<Longrightarrow> fl (e + 50) < a \<Longrightarrow> separated (cols @ [(s, e), (a, b)])"
  by (induction cols rule: separated.induct) auto

lemma merge_columns_separated:
  "separated (columns @ [cur]) \<Longrightarrow> separated (merge_columns rest columns cur)"
proof (induction rest columns cur rule: merge_columns.induct)
  case (1 columns current_col)
  then show ?case by simp
next
  case (2 a b rest columns col_start col_end)
  show ?case
  proof (cases "a \<le> fl (col_end + MULTI_COLUMN_GAP)")
    case True
    then show ?thesis
      using 2 separated_widen [of columns col_start col_end "max col_end b"] by simp
  next
    case False
    then have "separated ((columns @ [(col_start, col_end)]) @ [(a, b)])"
      using 2(3) separated_push [of columns col_start col_end a b]
      by (simp add: MULTI_COLUMN_GAP_def)
    then show ?thesis
      using False 2 by simp
  qed
qed

lemma detect_columns_separated: "separated (detect_columns x_coords w)"
proof (cases "sort_key fst x_coords")
  case Nil
  then show ?thesis by (simp add: detect_columns_def)
next
  case (Cons c rest)
  have "separated ([] @ [c])" by simp
  then have "separated (merge_columns rest [] c)"
    by (rule merge_columns_separated)
  then show ?thesis
    using Cons by (simp add: detect_columns_def)
qed

lemma x_coords_of_eq:
  "x_coords_of tbs =
     map (\<lambda>b. case pb_bbox b of Some (a, _, c, _) \<Rightarrow> (a, c)) (filter (\<lambda>b. pb_bbox b \<noteq> None) tbs)"
  by (induction tbs) (auto simp: x_coords_of_def split: option.splits)

text \<open>
  C5: with the text blocks being the blocks of type 0, and their intervals the pairs (x0,
  x1) of those that have a bounding box: a page without blocks is Unknown; a page with
  blocks of which at most one is a text block is SingleColumn; otherwise the intervals are
  clustered, which gives at least one column, and 1 column is SingleColumn, 2 columns are
  MultiColumn, 3 or more columns are Newspaper with more than 10 text blocks and Complex
  otherwise. (Two or more text blocks none of which has a bounding box give Unknown.) The
  clustering takes the intervals in the order of x0: two intervals are merged exactly when
  the one that starts later starts at most at the end of the other plus 50 (the sum as the
  code computes it), and the columns of any clustering are apart by more than that.
\<close>

theorem C5_layout_classification:
  "(let tb = filter (\<lambda>b. pb_type b = Some 0) blocks;
        xc = map (\<lambda>b. case pb_bbox b of Some (a, _, c, _) \<Rightarrow> (a, c))
               (filter (\<lambda>b. pb_bbox b \<noteq> None) tb);
        n = length (detect_columns xc w)
    in (blocks = [] \<longrightarrow> detect_layout_type blocks w = LAYOUT_UNKNOWN)
     \<and> (blocks \<noteq> [] \<and> length tb \<le> 1 \<longrightarrow> detect_layout_type blocks w = SINGLE_COLUMN)
     \<and> (2 \<le> length tb \<and> xc \<noteq> [] \<longrightarrow>
          1 \<le> n
          \<and> (n = 1 \<longrightarrow> detect_layout_type blocks w = SINGLE_COLUMN)
          \<and> (n = 2 \<longrightarrow> detect_layout_type blocks w = MULTI_COLUMN)
          \<and> (3 \<le> n \<and> 10 < length tb \<longrightarrow> detect_layout_type blocks w = NEWSPAPER)
          \<and> (3 \<le> n \<and> length tb \<le> 10 \<longrightarrow> detect_layout_type blocks w = COMPLEX))
     \<and> (2 \<le> length tb \<and> xc = [] \<longrightarrow> detect_layout_type blocks w = LAYOUT_UNKNOWN))
   \<and> (a \<le> c \<longrightarrow>
        detect_columns [(a, b), (c, d)] w
          = (if c \<le> fl (b + 50) then [(a, max b d)] else [(a, b), (c, d)]))
   \<and> (a < c \<longrightarrow> detect_columns [(c, d), (a, b)] w = detect_columns [(a, b), (c, d)] w)
   \<and> separated (detect_columns x_coords w)"
proof -
  let ?tb = "filter (\<lambda>b. pb_type b = Some 0) blocks"
  let ?xc = "map (\<lambda>b. case pb_bbox b of Some (a, _, c, _) \<Rightarrow> (a, c))
               (filter (\<lambda>b. pb_bbox b \<noteq> None) ?tb)"
  let ?n = "length (detect_columns ?xc w)"
  let ?r = "detect_layout_type blocks w"
  have tb: "text_blocks_of blocks = ?tb"
    by (simp add: text_blocks_of_def)
  have xc: "x_coords_of ?tb = ?xc"
    by (rule x_coords_of_eq)
  have r: "?r = (if blocks = [] then LAYOUT_UNKNOWN
      else if length ?tb < 2 then SINGLE_COLUMN
      else if ?xc = [] then LAYOUT_UNKNOWN
      else if ?n = 1 then SINGLE_COLUMN
      else if ?n = 2 then MULTI_COLUMN
      else if ?n \<ge> 3 then (if length ?tb > 10 then NEWSPAPER else COMPLEX)
      else SINGLE_COLUMN)"
    unfolding detect_layout_type_def Let_def tb xc by simp
  have ne: "blocks \<noteq> []" if "2 \<le> length ?tb"
    using that by auto
  have c1: "blocks = [] \<longrightarrow> ?r = LAYOUT_UNKNOWN"
    by (simp add: detect_layout_type_def)
  have c2: "blocks \<noteq> [] \<and> length ?tb \<le> 1 \<longrightarrow> ?r = SINGLE_COLUMN"
    unfolding r by simp
  have c3: "2 \<le> length ?tb \<and> ?xc \<noteq> [] \<longrightarrow>
          1 \<le> ?n
          \<and> (?n = 1 \<longrightarrow> ?r = SINGLE_COLUMN)
          \<and> (?n = 2 \<longrightarrow> ?r = MULTI_COLUMN)
          \<and> (3 \<le> ?n \<and> 10 < length ?tb \<longrightarrow> ?r = NEWSPAPER)
          \<and> (3 \<le> ?n \<and> length ?tb \<le> 10 \<longrightarrow> ?r = COMPLEX)"
  proof
    assume h: "2 \<le> length ?tb \<and> ?xc \<noteq> []"
    then have b: "blocks \<noteq> []" using ne by blast
    have n1: "1 \<le> ?n"
      using h by (intro detect_columns_nonempty) blast
    show "1 \<le> ?n
          \<and> (?n = 1 \<longrightarrow> ?r = SINGLE_COLUMN)
          \<and> (?n = 2 \<longrightarrow> ?r = MULTI_COLUMN)
          \<and> (3 \<le> ?n \<and> 10 < length ?tb \<longrightarrow> ?r = NEWSPAPER)
          \<and> (3 \<le> ?n \<and> length ?tb \<le> 10 \<longrightarrow> ?r = COMPLEX)"
      unfolding r using h b n1 by auto
  qed
  have c4: "2 \<le> length ?tb \<and> ?xc = [] \<longrightarrow> ?r = LAYOUT_UNKNOWN"
    unfolding r using ne by auto
  have c5: "a \<le> c \<longrightarrow>
        detect_columns [(a, b), (c, d)] w
          = (if c \<le> fl (b + 50) then [(a, max b d)] else [(a, b), (c, d)])"
    by (simp add: detect_columns_def MULTI_COLUMN_GAP_def)
  have c6: "a < c \<longrightarrow> detect_columns [(c, d), (a, b)] w = detect_columns [(a, b), (c, d)] w"
    by (simp add: detect_columns_def)
  have c7: "separated (detect_columns x_coords w)"
    by (rule detect_columns_separated)
  show ?thesis
    unfolding Let_def
    by (intro conjI) (rule c1, rule c2, rule c3, rule c4, rule c5, rule c6, rule c7)
qed

text \<open>
  On the page with three text columns the image block and the text block without a
  bounding box do not enter the clustering: three columns, four text blocks, Complex. The
  page with one image and one text block is SingleColumn. The intervals (0, 4.02) and
  (54.02, 60), as doubles, are two columns: the float sum 4.02 + 50 is below 54.02.
\<close>

theorem C5_three_columns_are_complex:
  "length (filter (\<lambda>b. pb_type b = Some 0) three_column_page) = 4
   \<and> detect_columns [(0, 100), (400, 500), (200, 300)] 600
        = [(0, 100), (200, 300), (400, 500)]
   \<and> detect_layout_type three_column_page 600 = COMPLEX
   \<and> length (filter (\<lambda>b. pb_type b = Some 0) image_and_text_page) = 1
   \<and> detect_layout_type image_and_text_page 600 = SINGLE_COLUMN
   \<and> \<not> fl 54.02 \<le> fl (fl 4.02 + 50)
   \<and> detect_columns [(0, fl 4.02), (fl 54.02, 60)] 600 = [(0, fl 4.02), (fl 54.02, 60)]"
proof -
  let ?tb = "filter (\<lambda>b. pb_type b = Some 0) three_column_page"
  let ?xc = "map (\<lambda>b. case pb_bbox b of Some (a, _, c, _) \<Rightarrow> (a, c))
               (filter (\<lambda>b. pb_bbox b \<noteq> None) ?tb)"
  have tb: "length ?tb = 4"
    by (simp add: three_column_page_def text_block_at_def)
  have xc: "?xc = [(0, 100), (400, 500), (200, 300)]"
    by (simp add: three_column_page_def text_block_at_def)
  have f150: "fl 150 = 150" and f250: "fl 350 = 350" and f550: "fl 550 = 550"
    by (simp_all add: fl_eval)
  have cols: "detect_columns [(0, 100), (400, 500), (200, 300)] 600
                = [(0, 100), (200, 300), (400, 500)]"
    by (simp add: detect_columns_def MULTI_COLUMN_GAP_def f150 f250 f550)
  note c5 = C5_layout_classification
      [where blocks = three_column_page and w = 600, unfolded Let_def]
  have h: "2 \<le> length ?tb \<and> ?xc \<noteq> []"
    unfolding xc tb by simp
  have n: "3 \<le> length (detect_columns ?xc 600) \<and> length ?tb \<le> 10"
    unfolding xc tb cols by simp
  from c5 h n have complex: "detect_layout_type three_column_page 600 = COMPLEX"
    by blast
  have tb2: "length (filter (\<lambda>b. pb_type b = Some 0) image_and_text_page) = 1"
    by (simp add: image_and_text_page_def text_block_at_def)
  have ne2: "image_and_text_page \<noteq> []"
    by (simp add: image_and_text_page_def)
  from C5_layout_classification [where blocks = image_and_text_page and w = 600, unfolded Let_def]
    tb2 ne2
  have single: "detect_layout_type image_and_text_page 600 = SINGLE_COLUMN"
    by simp
  have gap: "\<not> fl 54.02 \<le> fl (fl 4.02 + 50)"
    by (simp add: fl_eval)
  have pos: "(0 :: real) \<le> fl 54.02"
    by (simp add: fl_eval)
  from C5_layout_classification
      [where a = 0 and b = "fl 4.02" and c = "fl 54.02" and d = 60 and w = 600] pos gap
  have two: "detect_columns [(0, fl 4.02), (fl 54.02, 60)] 600 = [(0, fl 4.02), (fl 54.02, 60)]"
    by simp
  from tb cols complex tb2 single gap two show ?thesis
    by blast
qed

subsection \<open>Structure Analyzer: headings\<close>

lemmas heading_eval =
  identify_headings_def identify_headings_twice_def avg_font_size_of_def font_sizes_of_def
  identify_heading_def classifications_def classification_def heuristic_bold_def
  heuristic_font_def heuristic_patterns_def HEADING_PATTERNS_def strip_def ascii_def
  is_space_def is_digit_def digit_zeros_def is_upper_letter_def dot_def lit_def para_def

text \<open>
  C6, as stated, fails: four paragraphs with the font sizes 14, 10, 10 and 10. The first
  run has the mean 11 and makes the first block a heading of level 3; the second run takes
  the mean over the three blocks that are still paragraphs, which is 10, and gives the
  same block the level 2.
\<close>

theorem C6_second_run_changes_level:
  "classifications (identify_headings fonts_14_10_10_10)
     = Inr [(HEADING, Some (PInt 3)), (PARAGRAPH, None), (PARAGRAPH, None), (PARAGRAPH, None)]
   \<and> classifications (identify_headings_twice fonts_14_10_10_10)
     = Inr [(HEADING, Some (PInt 2)), (PARAGRAPH, None), (PARAGRAPH, None), (PARAGRAPH, None)]"
  by (simp add: heading_eval fl_eval fonts_14_10_10_10_def)

lemma heading_updates_twice:
  "(m(''heading_level'' \<mapsto> a, ''original_type'' \<mapsto> b))
      (''heading_level'' \<mapsto> a, ''original_type'' \<mapsto> b)
     = m(''heading_level'' \<mapsto> a, ''original_type'' \<mapsto> b)"
  by (rule ext) simp

lemma identify_heading_again:
  assumes "identify_heading a b = Inr b'"
  shows "identify_heading a b' = Inr b'"
proof (cases "ir_type b \<noteq> TEXT \<and> ir_type b \<noteq> PARAGRAPH \<and> ir_type b \<noteq> HEADING")
  case True
  then show ?thesis using assms by (simp add: identify_heading_def)
next
  case cand: False
  let ?fsv = "case ir_metadata b ''font_size'' of None \<Rightarrow> PFloat a | Some v \<Rightarrow> v"
  let ?bold = "case ir_metadata b ''is_bold'' of None \<Rightarrow> PBool False | Some v \<Rightarrow> v"
  from assms cand obtain fs where fs: "num_of ?fsv = Some fs"
    by (cases "num_of ?fsv") (simp_all add: identify_heading_def Let_def)
  let ?st = "heuristic_bold ?bold (strip (ir_content b))
               (heuristic_font a fs (heuristic_patterns (strip (ir_content b))))"
  show ?thesis
  proof (cases "fst ?st")
    case False
    with assms cand fs have "b' = b"
      by (simp add: identify_heading_def Let_def)
    with assms show ?thesis by simp
  next
    case True
    with assms cand fs have b': "b' = b\<lparr>ir_type := HEADING,
        ir_metadata := (ir_metadata b)(''heading_level'' \<mapsto> PInt (snd ?st),
                                        ''original_type'' \<mapsto> PStr (ascii ''heading''))\<rparr>"
      by (simp add: identify_heading_def Let_def)
    show ?thesis
      unfolding b' using True fs
      by (simp add: identify_heading_def Let_def heading_updates_twice)
  qed
qed

lemma map_err_again:
  assumes "map_err f xs = Inr ys" and "\<And>x y. f x = Inr y \<Longrightarrow> f y = Inr y"
  shows "map_err f ys = Inr ys"
  using assms(1)
proof (induction xs arbitrary: ys)
  case Nil
  then show ?case by simp
next
  case (Cons x xs)
  then show ?case
    by (auto split: sum.splits simp: assms(2))
qed

text \<open>
  C6, amended: when the first run returns and the mean font size over the blocks that are
  still Text or Paragraph after it is the mean the first run used, a second run returns the
  blocks of the first run as they are: every block keeps its type and its heading level.
\<close>

theorem C6_second_run_same_when_mean_unchanged:
  assumes "identify_headings blocks = Inr blocks1"
    and "avg_font_size_of blocks1 = avg_font_size_of blocks"
  shows "identify_headings blocks1 = Inr blocks1
         \<and> classifications (identify_headings_twice blocks)
             = classifications (identify_headings blocks)"
proof -
  from assms(1) obtain a where a: "avg_font_size_of blocks = Inr a"
    and m: "map_err (identify_heading a) blocks = Inr blocks1"
    by (cases "avg_font_size_of blocks") (simp_all add: identify_headings_def)
  have "map_err (identify_heading a) blocks1 = Inr blocks1"
    using m identify_heading_again by (rule map_err_again)
  then have "identify_headings blocks1 = Inr blocks1"
    using a assms(2) by (simp add: identify_headings_def)
  then show ?thesis
    using assms(1) by (simp add: identify_headings_twice_def)
qed

theorem C6_numbered_heading_is_stable:
  "classifications (identify_headings numbered_then_plain)
     = Inr [(HEADING, Some (PInt 1)), (PARAGRAPH, None)]
   \<and> classifications (identify_headings_twice numbered_then_plain)
     = Inr [(HEADING, Some (PInt 1)), (PARAGRAPH, None)]"
proof -
  obtain blocks1 where r: "identify_headings numbered_then_plain = Inr blocks1"
    and b1: "blocks1 =
      [(para ''b1'' ''1. Scope'' [''font_size'' \<mapsto> PFloat 10])
         \<lparr>ir_type := HEADING,
          ir_metadata := [''font_size'' \<mapsto> PFloat 10, ''heading_level'' \<mapsto> PInt 1,
                          ''original_type'' \<mapsto> PStr (ascii ''heading'')]\<rparr>,
       para ''b2'' ''beta'' [''font_size'' \<mapsto> PFloat 10]]"
    by (simp add: heading_eval fl_eval numbered_then_plain_def)
  have av: "avg_font_size_of blocks1 = avg_font_size_of numbered_then_plain"
    by (simp add: b1 avg_font_size_of_def font_sizes_of_def para_def numbered_then_plain_def
        fl_eval)
  have first: "classifications (identify_headings numbered_then_plain)
                 = Inr [(HEADING, Some (PInt 1)), (PARAGRAPH, None)]"
    by (simp add: r b1 classifications_def classification_def para_def)
  from C6_second_run_same_when_mean_unchanged [OF r av] first show ?thesis
    by simp
qed

text \<open>
  C8, as stated, fails: a bold paragraph "Intro" with the font size 12, alone in its
  document (mean 12, threshold just below 14.4), matches no pattern and has no large font,
  and heuristic (c) alone makes it a heading of level 1.
\<close>

theorem C8_bold_short_alone_gives_level_1:
  "classifications (identify_headings [bold_intro]) = Inr [(HEADING, Some (PInt 1))]"
  by (simp add: heading_eval fl_eval bold_intro_def)

text \<open>
  C8, amended: a Text or Paragraph block that is bold, whose stripped content is shorter
  than 100 characters, that matches no heading pattern and whose font size is a number not
  above the threshold (the float product of the mean and 1.2), becomes a Heading of level 1 (the level starts at 1 and heuristic
  (c) takes the minimum of the level so far and 2). In general heuristic (c) turns the
  level so far into its minimum with 2: a level 1 or 2 from (a) or (b) stays, a level 3
  becomes 2.
\<close>

theorem C8_bold_short_heading_level:
  assumes "ir_type block = TEXT \<or> ir_type block = PARAGRAPH"
    and "ir_metadata block ''is_bold'' = Some bold" and "truthy bold"
    and "length (strip (ir_content block)) < 100"
    and "\<not> list_ex (\<lambda>pattern. re_match pattern (strip (ir_content block))) HEADING_PATTERNS"
    and "num_of (case ir_metadata block ''font_size'' of None \<Rightarrow> PFloat avg | Some v \<Rightarrow> v)
           = Some fs"
    and "\<not> fs > fl (avg * fl 1.2)"
  shows "identify_heading avg block =
           Inr (block\<lparr>ir_type := HEADING,
                      ir_metadata := (ir_metadata block)
                        (''heading_level'' \<mapsto> PInt 1,
                         ''original_type'' \<mapsto> PStr (ascii ''heading''))\<rparr>)
         \<and> (\<forall>h l. heuristic_bold bold (strip (ir_content block)) (h, l) = (True, min l 2))"
  using assms
  by (auto simp: identify_heading_def Let_def heuristic_bold_def heuristic_font_def
      heuristic_patterns_def)

theorem C8_bold_intro_becomes_heading_1:
  "ir_type bold_intro = PARAGRAPH
   \<and> ir_metadata bold_intro ''is_bold'' = Some (PBool True)
   \<and> length (strip (ir_content bold_intro)) < 100
   \<and> \<not> list_ex (\<lambda>pattern. re_match pattern (strip (ir_content bold_intro))) HEADING_PATTERNS
   \<and> \<not> 12 > fl (12 * fl 1.2)
   \<and> classification
        (bold_intro\<lparr>ir_type := HEADING,
                    ir_metadata := (ir_metadata bold_intro)
                      (''heading_level'' \<mapsto> PInt 1,
                       ''original_type'' \<mapsto> PStr (ascii ''heading''))\<rparr>)
        = (HEADING, Some (PInt 1))
   \<and> identify_heading 12 bold_intro =
        Inr (bold_intro\<lparr>ir_type := HEADING,
                        ir_metadata := (ir_metadata bold_intro)
                          (''heading_level'' \<mapsto> PInt 1,
                           ''original_type'' \<mapsto> PStr (ascii ''heading''))\<rparr>)"
proof -
  have h1: "ir_type bold_intro = TEXT \<or> ir_type bold_intro = PARAGRAPH"
    by (simp add: bold_intro_def para_def)
  have h2: "ir_metadata bold_intro ''is_bold'' = Some (PBool True)"
    by (simp add: bold_intro_def para_def)
  have h3: "truthy (PBool True)"
    by simp
  have h4: "length (strip (ir_content bold_intro)) < 100"
    by (simp add: bold_intro_def para_def strip_def ascii_def is_space_def)
  have h5: "\<not> list_ex (\<lambda>pattern. re_match pattern (strip (ir_content bold_intro)))
                 HEADING_PATTERNS"
    by (simp add: bold_intro_def para_def strip_def ascii_def is_space_def HEADING_PATTERNS_def
        is_digit_def digit_zeros_def is_upper_letter_def dot_def lit_def)
  have h6: "num_of (case ir_metadata bold_intro ''font_size'' of
                      None \<Rightarrow> PFloat 12 | Some v \<Rightarrow> v) = Some 12"
    by (simp add: bold_intro_def para_def)
  have h7: "\<not> 12 > fl (12 * fl 1.2)"
    by (simp add: fl_eval)
  from C8_bold_short_heading_level [OF h1 h2 h3 h4 h5 h6 h7] h2 h4 h5 h7 show ?thesis
    by (simp add: classification_def bold_intro_def para_def)
qed

text \<open>
  At the mean 12 the float product 12 * 1.2 is just below 14.4, so the font size 14.4 is
  above the threshold: heuristic (b) gives the level 3 and heuristic (c) turns it into 2.
\<close>

lemma bold_font_14_4_at_mean_12:
  "fl (12 * fl 1.2) < fl 14.4
   \<and> classifications (map_sum id (\<lambda>b. [b]) (identify_heading 12 bold_14_4))
       = Inr [(HEADING, Some (PInt 2))]"
  by (simp add: heading_eval fl_eval bold_14_4_def)

subsection \<open>Structure Analyzer: hierarchy\<close>

lemma pop_headings_int:
  "pop_headings (PInt L) (map int_entry st)
     = Inr (map int_entry (dropWhile (\<lambda>e. L \<le> fst e) st))"
  by (induction st) (auto simp: int_entry_def py_ge_def)

lemma hierarchy_step_heading:
  assumes "ir_type block = HEADING" and "ir_metadata block ''heading_level'' = Some (PInt L)"
  shows "hierarchy_step (map int_entry st) block =
          Inr (map int_entry ((L, ir_id block) # dropWhile (\<lambda>e. L \<le> fst e) st),
               case dropWhile (\<lambda>e. L \<le> fst e) st of
                 [] \<Rightarrow> block
               | e # _ \<Rightarrow> with_parent block (snd e))"
proof (cases "dropWhile (\<lambda>e. L \<le> fst e) st")
  case Nil
  with assms show ?thesis
    by (simp add: hierarchy_step_def pop_headings_int int_entry_def del: dropWhile_eq_Nil_conv)
next
  case (Cons e es)
  with assms show ?thesis
    by (simp add: hierarchy_step_def pop_headings_int with_parent_def int_entry_def)
qed

lemma hierarchy_levels_1_2_3_2:
  assumes t: "ir_type b1 = HEADING" "ir_type b2 = HEADING" "ir_type b3 = HEADING"
      "ir_type b4 = HEADING"
    and l: "ir_metadata b1 ''heading_level'' = Some (PInt 1)"
      "ir_metadata b2 ''heading_level'' = Some (PInt 2)"
      "ir_metadata b3 ''heading_level'' = Some (PInt 3)"
      "ir_metadata b4 ''heading_level'' = Some (PInt 2)"
  shows "build_hierarchy [b1, b2, b3, b4] =
           Inr [b1, with_parent b2 (ir_id b1), with_parent b3 (ir_id b2),
                with_parent b4 (ir_id b1)]"
proof -
  have s1: "hierarchy_step [] b1 = Inr ([int_entry (1, ir_id b1)], b1)"
    using hierarchy_step_heading [OF t(1) l(1), of "[]"] by simp
  have s2: "hierarchy_step [int_entry (1, ir_id b1)] b2
              = Inr ([int_entry (2, ir_id b2), int_entry (1, ir_id b1)],
                     with_parent b2 (ir_id b1))"
    using hierarchy_step_heading [OF t(2) l(2), of "[(1, ir_id b1)]"] by simp
  have s3: "hierarchy_step [int_entry (2, ir_id b2), int_entry (1, ir_id b1)] b3
              = Inr ([int_entry (3, ir_id b3), int_entry (2, ir_id b2), int_entry (1, ir_id b1)],
                     with_parent b3 (ir_id b2))"
    using hierarchy_step_heading [OF t(3) l(3), of "[(2, ir_id b2), (1, ir_id b1)]"] by simp
  have s4: "hierarchy_step
              [int_entry (3, ir_id b3), int_entry (2, ir_id b2), int_entry (1, ir_id b1)] b4
              = Inr ([int_entry (2, ir_id b4), int_entry (1, ir_id b1)],
                     with_parent b4 (ir_id b1))"
    using hierarchy_step_heading
      [OF t(4) l(4), of "[(3, ir_id b3), (2, ir_id b2), (1, ir_id b1)]"] by simp
  show ?thesis
    unfolding build_hierarchy_def by (simp add: s1 s2 s3 s4)
qed

text \<open>
  C7: the hierarchy pass keeps a stack of (level, block id), the top first. On a Heading
  of level L, with integer levels on the stack, it removes the entries of level at least L
  from the top, records the identifier on top of what remains (if anything remains) as the
  parent\_heading of the block, and pushes (L, id). Four headings with the levels 1, 2, 3,
  2 get the parents: none for the first, the first for the second, the second for the
  third, the first for the fourth.
\<close>

theorem C7_heading_stack_and_parents:
  "(ir_type block = HEADING \<and> ir_metadata block ''heading_level'' = Some (PInt L) \<longrightarrow>
      hierarchy_step (map int_entry st) block =
        Inr (map int_entry ((L, ir_id block) # dropWhile (\<lambda>e. L \<le> fst e) st),
             case dropWhile (\<lambda>e. L \<le> fst e) st of
               [] \<Rightarrow> block
             | e # _ \<Rightarrow> with_parent block (snd e)))
   \<and> (ir_type b1 = HEADING \<and> ir_type b2 = HEADING \<and> ir_type b3 = HEADING
        \<and> ir_type b4 = HEADING
        \<and> ir_metadata b1 ''heading_level'' = Some (PInt 1)
        \<and> ir_metadata b2 ''heading_level'' = Some (PInt 2)
        \<and> ir_metadata b3 ''heading_level'' = Some (PInt 3)
        \<and> ir_metadata b4 ''heading_level'' = Some (PInt 2) \<longrightarrow>
      build_hierarchy [b1, b2, b3, b4] =
        Inr [b1, with_parent b2 (ir_id b1), with_parent b3 (ir_id b2),
             with_parent b4 (ir_id b1)])"
  using hierarchy_step_heading hierarchy_levels_1_2_3_2 by blast

text \<open>
  The headings h1 to h4 with the levels 1, 2, 3, 2: when h4 arrives, the entries of h3 and
  h2 leave the stack, and the parents are none, h1, h2, h1.
\<close>

theorem C7_parents_of_h1_h2_h3_h4:
  "hierarchy_step
     (map int_entry [(3 :: int, ascii ''h3''), (2, ascii ''h2''), (1, ascii ''h1'')]) (heading ''h4'' 2)
     = Inr (map int_entry [(2, ascii ''h4''), (1, ascii ''h1'')],
            with_parent (heading ''h4'' 2) (ascii ''h1''))
   \<and> parent_headings (build_hierarchy headings_1_2_3_2)
     = Inr [None, Some (PStr (ascii ''h1'')), Some (PStr (ascii ''h2'')),
            Some (PStr (ascii ''h1''))]"
proof -
  have types: "ir_type (heading ''h1'' 1) = HEADING \<and> ir_type (heading ''h2'' 2) = HEADING
        \<and> ir_type (heading ''h3'' 3) = HEADING \<and> ir_type (heading ''h4'' 2) = HEADING"
    by (simp add: heading_def)
  have levels: "ir_metadata (heading ''h1'' 1) ''heading_level'' = Some (PInt 1)
        \<and> ir_metadata (heading ''h2'' 2) ''heading_level'' = Some (PInt 2)
        \<and> ir_metadata (heading ''h3'' 3) ''heading_level'' = Some (PInt 3)
        \<and> ir_metadata (heading ''h4'' 2) ''heading_level'' = Some (PInt 2)"
    by (simp add: heading_def)
  note c7 = C7_heading_stack_and_parents
         [of "heading ''h4'' 2" 2 "[(3 :: int, ascii ''h3''), (2, ascii ''h2''), (1, ascii ''h1'')]"
            "heading ''h1'' 1" "heading ''h2'' 2" "heading ''h3'' 3" "heading ''h4'' 2"]
  from c7 types levels
  have step: "hierarchy_step
      (map int_entry [(3 :: int, ascii ''h3''), (2, ascii ''h2''), (1, ascii ''h1'')]) (heading ''h4'' 2)
      = Inr (map int_entry ((2, ir_id (heading ''h4'' 2))
               # dropWhile (\<lambda>e. (2 :: int) \<le> fst e)
                   [(3 :: int, ascii ''h3''), (2, ascii ''h2''), (1, ascii ''h1'')]),
             case dropWhile (\<lambda>e. (2 :: int) \<le> fst e)
                    [(3 :: int, ascii ''h3''), (2, ascii ''h2''), (1, ascii ''h1'')] of
               [] \<Rightarrow> heading ''h4'' 2
             | e # _ \<Rightarrow> with_parent (heading ''h4'' 2) (snd e))"
    by blast
  from c7 types levels
  have "build_hierarchy headings_1_2_3_2 =
          Inr [heading ''h1'' 1, with_parent (heading ''h2'' 2) (ir_id (heading ''h1'' 1)),
               with_parent (heading ''h3'' 3) (ir_id (heading ''h2'' 2)),
               with_parent (heading ''h4'' 2) (ir_id (heading ''h1'' 1))]"
    unfolding headings_1_2_3_2_def by blast
  then have "parent_headings (build_hierarchy headings_1_2_3_2)
     = Inr [None, Some (PStr (ascii ''h1'')), Some (PStr (ascii ''h2'')),
            Some (PStr (ascii ''h1''))]"
    by (simp add: parent_headings_def with_parent_def heading_def)
  moreover have "hierarchy_step
     (map int_entry [(3 :: int, ascii ''h3''), (2, ascii ''h2''), (1, ascii ''h1'')]) (heading ''h4'' 2)
     = Inr (map int_entry [(2, ascii ''h4''), (1, ascii ''h1'')],
            with_parent (heading ''h4'' 2) (ascii ''h1''))"
    using step by (simp add: heading_def)
  ultimately show ?thesis
    by simp
qed

subsection \<open>Structure Preserver: counters\<close>

lemma process_image_ocr_keeps:
  "stats (snd (process_image_ocr oid self img p)) = stats self
   \<and> ocr_client (snd (process_image_ocr oid self img p)) = ocr_client self
   \<and> min_area (snd (process_image_ocr oid self img p)) = min_area self"
  by (auto simp: process_image_ocr_def
      split: option.splits prod.splits ocr_outcome.splits list.splits)

lemma process_block_stats:
  "total_images (stats (snd (process_block oid p self b)))
     = total_images (stats self) + (if flagged b then 1 else 0)
   \<and> ocr_processed (stats (snd (process_block oid p self b)))
       + ocr_errors (stats (snd (process_block oid p self b)))
     = ocr_processed (stats self) + ocr_errors (stats self) + (if flagged b then 1 else 0)
   \<and> ocr_skipped (stats (snd (process_block oid p self b))) = ocr_skipped (stats self)
   \<and> total_drawings (stats (snd (process_block oid p self b))) = total_drawings (stats self)"
proof (cases b)
  case (Image img)
  show ?thesis
  proof (cases "ib_needs_ocr img")
    case True
    let ?self1 = "self\<lparr>stats := (stats self)\<lparr>total_images := total_images (stats self) + 1\<rparr>\<rparr>"
    obtain r self2 where pr: "process_image_ocr oid ?self1 img p = (r, self2)"
      by (cases "process_image_ocr oid ?self1 img p")
    have "stats self2 = stats ?self1"
      using process_image_ocr_keeps [of oid ?self1 img p] pr by simp
    then show ?thesis
      using Image True pr
      by (cases r) (simp_all add: process_block_def flagged_def Let_def)
  next
    case False
    with Image show ?thesis by (simp add: process_block_def flagged_def)
  qed
qed (simp_all add: process_block_def flagged_def)

lemma process_blocks_stats:
  "total_images (stats (snd (process_blocks oid p self bs)))
     = total_images (stats self) + length (filter flagged bs)
   \<and> ocr_processed (stats (snd (process_blocks oid p self bs)))
       + ocr_errors (stats (snd (process_blocks oid p self bs)))
     = ocr_processed (stats self) + ocr_errors (stats self) + length (filter flagged bs)
   \<and> ocr_skipped (stats (snd (process_blocks oid p self bs))) = ocr_skipped (stats self)
   \<and> total_drawings (stats (snd (process_blocks oid p self bs))) = total_drawings (stats self)"
proof (induction bs arbitrary: self)
  case Nil
  then show ?case by simp
next
  case (Cons b bs)
  obtain o1 s1 where b: "process_block oid p self b = (o1, s1)"
    by (cases "process_block oid p self b")
  obtain o2 s2 where bs: "process_blocks oid p s1 bs = (o2, s2)"
    by (cases "process_blocks oid p s1 bs")
  from process_block_stats [of oid p self b] b Cons.IH [of s1] bs
  show ?case by (simp split: if_splits)
qed

lemma process_structure_snd:
  "snd (process_structure oid self bs p) = snd (process_blocks oid p self bs)"
  by (simp add: process_structure_def split: prod.splits)

lemma process_structure_consistent:
  assumes "counters_consistent (stats self)"
  shows "counters_consistent (stats (snd (process_structure oid self bs p)))"
  using assms process_blocks_stats [of oid p self bs]
  by (simp add: counters_consistent_def process_structure_snd)

lemma run_calls_consistent:
  assumes "counters_consistent (stats self)"
  shows "counters_consistent (stats (run_calls oid self calls))"
  using assms
proof (induction calls arbitrary: self)
  case Nil
  then show ?case by simp
next
  case (Cons c calls)
  show ?case
  proof (cases c)
    case (ProcessStructure bs p)
    then show ?thesis
      using Cons by (simp add: process_structure_consistent)
  next
    case ResetStatistics
    then show ?thesis
      using Cons.IH [of "reset_statistics self"]
      by (simp add: reset_statistics_def counters_consistent_def zero_stats_def)
  qed
qed

text \<open>
  C9: after any sequence of process\_structure calls (and resets) on a fresh preserver, or
  on one whose statistics were reset, total\_images = ocr\_processed + ocr\_errors and
  ocr\_skipped = 0, whatever the collaborator does and whatever min\_area is. One call adds
  the number of recognition-flagged images of the page to total\_images and the same
  number to ocr\_processed + ocr\_errors, and leaves ocr\_skipped as it was.
\<close>

theorem C9_counters_stay_consistent:
  "counters_consistent (stats (run_calls oid (new_StructurePreserver client area s) calls))
   \<and> counters_consistent (stats (run_calls oid (reset_statistics self) calls))
   \<and> total_images (stats (snd (process_structure oid self bs p)))
       = total_images (stats self) + length (filter flagged bs)
   \<and> ocr_processed (stats (snd (process_structure oid self bs p)))
       + ocr_errors (stats (snd (process_structure oid self bs p)))
       = ocr_processed (stats self) + ocr_errors (stats self) + length (filter flagged bs)
   \<and> ocr_skipped (stats (snd (process_structure oid self bs p))) = ocr_skipped (stats self)"
proof -
  have "counters_consistent (stats (new_StructurePreserver client area s))"
    by (simp add: new_StructurePreserver_def counters_consistent_def zero_stats_def)
  moreover have "counters_consistent (stats (reset_statistics self))"
    by (simp add: reset_statistics_def counters_consistent_def zero_stats_def)
  ultimately show ?thesis
    using process_blocks_stats [of oid p self bs]
    by (simp add: run_calls_consistent process_structure_snd)
qed

subsection \<open>Structure Preserver: failed recognition\<close>

lemma process_image_ocr_fails:
  assumes "call_fails self img p"
  shows "process_image_ocr oid self img p = (None, self\<lparr>ocr_state := state_after_call self img p\<rparr>)"
  using assms
  by (auto simp: process_image_ocr_def call_fails_def state_after_call_def
      split: option.splits prod.splits ocr_outcome.splits list.splits)

lemma call_fails_stats [simp]:
  "call_fails (self\<lparr>stats := st\<rparr>) img p = call_fails self img p"
  "state_after_call (self\<lparr>stats := st\<rparr>) img p = state_after_call self img p"
  by (simp_all add: call_fails_def state_after_call_def split: option.splits)

lemma process_block_fails:
  assumes "ib_needs_ocr img" and "call_fails self img p"
  shows "process_block oid p self (Image img) =
           ([Image img],
            self\<lparr>stats := (stats self)\<lparr>total_images := total_images (stats self) + 1,
                                       ocr_errors := ocr_errors (stats self) + 1\<rparr>,
                 ocr_state := state_after_call self img p\<rparr>)"
  using assms
  by (simp add: process_block_def Let_def process_image_ocr_fails)

lemma process_block_passes:
  assumes "passes_through b"
  shows "process_block oid p self b = ([b], self)"
  using assms
  by (cases b) (simp_all add: process_block_def passes_through_def flagged_def is_drawing_def)

lemma process_blocks_pass:
  assumes "list_all passes_through bs"
  shows "process_blocks oid p self bs = (bs, self)"
  using assms by (induction bs) (simp_all add: process_block_passes)

lemma process_structure_fst:
  "fst (process_structure oid self bs p) = sort_key position_key (fst (process_blocks oid p self bs))"
  by (simp add: process_structure_def split: prod.splits)

lemma process_blocks_append:
  "process_blocks oid p self (xs @ ys) =
     (let (out1, self1) = process_blocks oid p self xs;
          (out2, self2) = process_blocks oid p self1 ys
      in (out1 @ out2, self2))"
  by (induction xs arbitrary: self) (simp_all add: Let_def split: prod.splits)

text \<open>
  C4: for a recognition-flagged image whose recognition fails (no collaborator, a call
  that raises, no response or a response without fragments), the loop appends the original
  image block, adds 1 to total\_images and 1 to ocr\_errors and changes no other counter;
  wherever the image stands in the page, it is in the output list; and when the other
  blocks of the page are passed through, the output is the input in reading order, every
  block as it was. The preserver is a total function: no failure of the collaborator
  reaches the caller.
\<close>

theorem C4_failed_recognition_keeps_placeholder:
  assumes "ib_needs_ocr img"
  shows "(call_fails self img p \<longrightarrow>
            process_block oid p self (Image img) =
              ([Image img],
               self\<lparr>stats := (stats self)\<lparr>total_images := total_images (stats self) + 1,
                                          ocr_errors := ocr_errors (stats self) + 1\<rparr>,
                    ocr_state := state_after_call self img p\<rparr>))
    \<and> (call_fails (snd (process_blocks oid p self pre)) img p \<longrightarrow>
          Image img \<in> set (fst (process_structure oid self (pre @ Image img # post) p)))
    \<and> (call_fails self img p \<and> list_all passes_through pre \<and> list_all passes_through post \<longrightarrow>
          process_structure oid self (pre @ Image img # post) p =
            (sort_key position_key (pre @ Image img # post),
             self\<lparr>stats := (stats self)\<lparr>total_images := total_images (stats self) + 1,
                                        ocr_errors := ocr_errors (stats self) + 1\<rparr>,
                  ocr_state := state_after_call self img p\<rparr>))"
proof (intro conjI impI)
  show "process_block oid p self (Image img) =
              ([Image img],
               self\<lparr>stats := (stats self)\<lparr>total_images := total_images (stats self) + 1,
                                          ocr_errors := ocr_errors (stats self) + 1\<rparr>,
                    ocr_state := state_after_call self img p\<rparr>)"
    if "call_fails self img p"
    using assms that by (rule process_block_fails)
next
  assume f: "call_fails (snd (process_blocks oid p self pre)) img p"
  obtain o1 s1 where pre: "process_blocks oid p self pre = (o1, s1)"
    by (cases "process_blocks oid p self pre")
  obtain o3 s3 where post: "process_blocks oid p
      (s1\<lparr>stats := (stats s1)\<lparr>total_images := total_images (stats s1) + 1,
                                          ocr_errors := ocr_errors (stats s1) + 1\<rparr>,
                    ocr_state := state_after_call s1 img p\<rparr>) post = (o3, s3)"
    by (cases "process_blocks oid p
      (s1\<lparr>stats := (stats s1)\<lparr>total_images := total_images (stats s1) + 1,
                                          ocr_errors := ocr_errors (stats s1) + 1\<rparr>,
                    ocr_state := state_after_call s1 img p\<rparr>) post")
  from f pre have "call_fails s1 img p" by simp
  then have "fst (process_blocks oid p self (pre @ Image img # post)) = o1 @ Image img # o3"
    using pre post assms
    by (simp add: process_blocks_append process_block_fails)
  then show "Image img \<in> set (fst (process_structure oid self (pre @ Image img # post) p))"
    by (simp add: process_structure_fst)
next
  assume h: "call_fails self img p \<and> list_all passes_through pre \<and> list_all passes_through post"
  then show "process_structure oid self (pre @ Image img # post) p =
            (sort_key position_key (pre @ Image img # post),
             self\<lparr>stats := (stats self)\<lparr>total_images := total_images (stats self) + 1,
                                        ocr_errors := ocr_errors (stats self) + 1\<rparr>,
                  ocr_state := state_after_call self img p\<rparr>)"
    using assms
    by (simp add: process_structure_def process_blocks_append process_blocks_pass
        process_block_fails)
qed

theorem C4_raising_collaborator_keeps_image:
  "ib_needs_ocr placeholder \<and> call_fails raising_preserver placeholder 0
   \<and> list_all passes_through [] \<and> list_all passes_through [Text title_block]
   \<and> fst (process_structure (\<lambda>image_block. 0) raising_preserver
             [Image placeholder, Text title_block] 0)
        = [Text title_block, Image placeholder]
   \<and> stats (snd (process_structure (\<lambda>image_block. 0) raising_preserver
                    [Image placeholder, Text title_block] 0))
        = \<lparr>total_images = 1, total_drawings = 0, ocr_processed = 0, ocr_skipped = 0,
           ocr_errors = 1\<rparr>"
proof -
  have n: "ib_needs_ocr placeholder"
    by (simp add: placeholder_def)
  have f: "call_fails raising_preserver placeholder 0"
    by (simp add: call_fails_def raising_preserver_def new_StructurePreserver_def raising_def)
  have p: "list_all passes_through [] \<and> list_all passes_through [Text title_block]"
    by (simp add: passes_through_def flagged_def is_drawing_def)
  have srt: "sort_key position_key [Image placeholder, Text title_block]
               = [Text title_block, Image placeholder]"
    by (simp add: position_key_def block_bbox_def block_page_num_def placeholder_def
        title_block_def new_TextBlock_def TextBlock_post_init_def)
  from C4_failed_recognition_keeps_placeholder [OF n, of raising_preserver 0 "\<lambda>image_block. 0" "[]" "[Text title_block]"] f p
  have "process_structure (\<lambda>image_block. 0) raising_preserver
          ([] @ Image placeholder # [Text title_block]) 0 =
            (sort_key position_key ([] @ Image placeholder # [Text title_block]),
             raising_preserver\<lparr>stats := (stats raising_preserver)
                 \<lparr>total_images := total_images (stats raising_preserver) + 1,
                  ocr_errors := ocr_errors (stats raising_preserver) + 1\<rparr>,
                  ocr_state := state_after_call raising_preserver placeholder 0\<rparr>)"
    by blast
  then show ?thesis
    using n f p srt
    by (simp add: raising_preserver_def new_StructurePreserver_def zero_stats_def)
qed

subsection \<open>Structure Preserver: merged block\<close>

lemma map_err_results:
  assumes "map_err f xs = Inr ys"
  shows "list_all2 (\<lambda>x y. f x = Inr y) xs ys"
  using assms
  by (induction xs arbitrary: ys) (auto split: sum.splits)

lemma parse_block_confidence:
  assumes "parse_block pn bd = Inr ob"
  shows "ob_confidence ob = get_or (bd_confidence bd) 1"
  using assms by (auto simp: parse_block_def split: sum.splits)

lemma parsed_confidences:
  assumes "map_err (parse_block pn) bds = Inr obs"
  shows "map ob_confidence obs = map (\<lambda>bd. get_or (bd_confidence bd) 1) bds"
proof -
  have "list_all2 (\<lambda>bd ob. parse_block pn bd = Inr ob) bds obs"
    using assms by (rule map_err_results)
  then show ?thesis
    by (induction rule: list_all2_induct) (simp_all add: parse_block_confidence)
qed

lemma parse_ocr_response_mean:
  assumes "parse_ocr_response data pn = Inr r" and "resp_blocks r \<noteq> []"
  shows "resp_confidence_avg r
           = fl (foldl (\<lambda>acc v. fl (acc + v)) 0 (map ob_confidence (resp_blocks r))
                 / fl (real (length (resp_blocks r))))"
proof -
  let ?bds = "get_or (rd_blocks data) []"
  let ?cs = "map (\<lambda>bd. get_or (bd_confidence bd) 1) ?bds"
  from assms(1) obtain obs where obs: "map_err (parse_block pn) ?bds = Inr obs"
    by (cases "map_err (parse_block pn) ?bds") (simp_all add: parse_ocr_response_def Let_def)
  with assms(1) have rb: "resp_blocks r = obs"
    and avg: "resp_confidence_avg r =
       (if ?cs = [] then 1 else fl (float_sum ?cs / fl (real (length ?cs))))"
    by (auto simp: parse_ocr_response_def Let_def)
  have m: "map ob_confidence obs = ?cs"
    using obs by (rule parsed_confidences)
  have len: "length obs = length ?cs"
    using m by (metis length_map)
  from assms(2) rb have "obs \<noteq> []" by simp
  then have ne: "?cs \<noteq> []"
    using len by auto
  have "resp_confidence_avg r = fl (float_sum ?cs / fl (real (length ?cs)))"
    using avg ne by (simp only: if_False)
  then show ?thesis
    unfolding rb m len float_sum_def .
qed

text \<open>
  C3, as stated, fails: three fragments with the confidences 0.1, 0.2 and 0.3 (as
  doubles). The merged block has the confidence 0.20000000000000004 (the double
  7205759403792795 / 2 ^ 55), which is what the float sum and the float division give and
  is not the arithmetic mean of the three confidences.
\<close>

theorem C3_float_mean_is_not_exact:
  "merged_confidences
     (fst (process_block no_object_id 0 (answering_preserver three_fragments) (Image placeholder)))
     = [7205759403792795 / 36028797018963968]
   \<and> (fl 0.1 + fl 0.2 + fl 0.3) / 3 \<noteq> 7205759403792795 / 36028797018963968"
  by (simp add: merged_confidences_def process_block_def process_image_ocr_def
      answering_preserver_def new_StructurePreserver_def answering_def parse_ocr_response_def
      three_fragments_def fragment_def parse_block_def parse_bbox_def get_or_def
      content_type_of_def ascii_def placeholder_def float_sum_def fl_eval)

text \<open>
  C3, amended: for a recognition-flagged image whose collaborator returns a response built
  by \_parse\_ocr\_response with at least one fragment, the loop appends exactly one merged
  block and counts it as processed. Its content is the fragments' texts in the order of the
  response, joined by newlines; its confidence is sum(confidences) / len(confidences) as
  double arithmetic computes it (the sum taken from left to right, every addition and the
  division rounded to the nearest double), which is the arithmetic mean up to rounding;
  its bbox is the bbox of the image block; its type is the type of the first fragment. The
  fragments "A" and "B" with the confidences 0.9 and 0.7 give the content "A\nB" and the
  confidence 0.8.
\<close>

theorem C3_merged_block_of_recognized_image:
  assumes "ib_needs_ocr img"
    and "ocr_client self = Some ocr_figure"
    and "ocr_figure (ocr_state self) (ib_image_data img) p (ib_bbox img)
           = (Returned (Some r), s')"
    and "parse_ocr_response data pn = Inr r"
    and "resp_blocks r \<noteq> []"
  shows "\<exists>m. process_block oid p self (Image img) =
               ([Recognized m],
                self\<lparr>stats := (stats self)\<lparr>total_images := total_images (stats self) + 1,
                                           ocr_processed := ocr_processed (stats self) + 1\<rparr>,
                     ocr_state := s'\<rparr>)
             \<and> ob_content m = join [10] (map ob_content (resp_blocks r))
             \<and> ob_confidence m
                 = fl (foldl (\<lambda>acc v. fl (acc + v)) 0 (map ob_confidence (resp_blocks r))
                       / fl (real (length (resp_blocks r))))
             \<and> ob_bbox m = ib_bbox img
             \<and> ob_type m = ob_type (hd (resp_blocks r))"
proof -
  from assms(5) obtain first_block rest where fr: "resp_blocks r = first_block # rest"
    by (cases "resp_blocks r") auto
  have mean: "resp_confidence_avg r
           = fl (foldl (\<lambda>acc v. fl (acc + v)) 0 (map ob_confidence (resp_blocks r))
                 / fl (real (length (resp_blocks r))))"
    using assms(4,5) by (rule parse_ocr_response_mean)
  have "process_block oid p self (Image img) =
               ([Recognized
                   \<lparr>ob_id = ascii ''ocr_image_'' @ str_of_int p @ ascii ''_''
                            @ str_of_int (int (oid img)),
                    ob_type = ob_type first_block,
                    ob_content = join [10] (map ob_content (resp_blocks r)),
                    ob_bbox = ib_bbox img,
                    ob_page_num = p,
                    ob_confidence = resp_confidence_avg r,
                    ob_source = ascii ''ocr'',
                    ob_metadata =
                      [''source'' \<mapsto> PStr (ascii ''image_ocr''),
                       ''original_format'' \<mapsto> PStr (ib_format img),
                       ''markdown'' \<mapsto> PStr (resp_markdown r)]
                      ++ ob_metadata first_block\<rparr>],
                self\<lparr>stats := (stats self)\<lparr>total_images := total_images (stats self) + 1,
                                           ocr_processed := ocr_processed (stats self) + 1\<rparr>,
                     ocr_state := s'\<rparr>)"
    using assms(1,2,3) fr
    by (simp add: process_block_def process_image_ocr_def Let_def)
  then show ?thesis
    using fr mean by simp
qed

lemma parse_two_fragments:
  "\<exists>r. parse_ocr_response two_fragments 0 = Inr r
       \<and> map ob_content (resp_blocks r) = [ascii ''A'', ascii ''B'']
       \<and> map ob_confidence (resp_blocks r) = [fl 0.9, fl 0.7]
       \<and> map ob_type (resp_blocks r) = [FIGURE, FIGURE]"
  by (simp add: parse_ocr_response_def two_fragments_def fragment_def parse_block_def
      parse_bbox_def get_or_def content_type_of_def ascii_def Let_def)

lemma mean_of_09_07:
  "fl (fl (fl (0 + fl 0.9) + fl 0.7) / fl 2) = fl 0.8"
  by (simp add: fl_eval)

text \<open>The fragments "A" and "B" with the confidences 0.9 and 0.7, as doubles.\<close>

theorem C3_fragments_A_B_merge:
  "\<exists>m. fst (process_block no_object_id 0 (answering_preserver two_fragments) (Image placeholder))
          = [Recognized m]
       \<and> ob_content m = ascii ''A'' @ [10] @ ascii ''B''
       \<and> ob_confidence m = fl 0.8
       \<and> ob_bbox m = \<lparr>x0 = 100, y0 = 200, x1 = 300, y1 = 400\<rparr>
       \<and> ob_type m = FIGURE"
proof -
  let ?self = "answering_preserver two_fragments"
  obtain r where r: "parse_ocr_response two_fragments 0 = Inr r"
    and c: "map ob_content (resp_blocks r) = [ascii ''A'', ascii ''B'']"
    and f: "map ob_confidence (resp_blocks r) = [fl 0.9, fl 0.7]"
    and t: "map ob_type (resp_blocks r) = [FIGURE, FIGURE]"
    using parse_two_fragments by (elim exE conjE) (rule that)
  have n: "ib_needs_ocr placeholder"
    by (simp add: placeholder_def)
  have cl: "ocr_client ?self = Some (answering two_fragments)"
    by (simp add: answering_preserver_def new_StructurePreserver_def)
  have call: "answering two_fragments (ocr_state ?self) (ib_image_data placeholder) 0
                (ib_bbox placeholder) = (Returned (Some r), ())"
    by (simp add: answering_def r)
  have ne: "resp_blocks r \<noteq> []"
    using c by auto
  have len: "length (resp_blocks r) = 2"
    using c by (metis length_map length_Cons list.size(3) numeral_2_eq_2)
  have ty: "ob_type (hd (resp_blocks r)) = FIGURE"
    using t ne by (cases "resp_blocks r") auto
  from C3_merged_block_of_recognized_image [OF n cl call r ne, of no_object_id] obtain m where
    m1: "process_block no_object_id 0 ?self (Image placeholder) =
               ([Recognized m],
                ?self\<lparr>stats := (stats ?self)
                    \<lparr>total_images := total_images (stats ?self) + 1,
                     ocr_processed := ocr_processed (stats ?self) + 1\<rparr>,
                     ocr_state := ()\<rparr>)"
    and m2: "ob_content m = join [10] (map ob_content (resp_blocks r))"
    and m3: "ob_confidence m
                 = fl (foldl (\<lambda>acc v. fl (acc + v)) 0 (map ob_confidence (resp_blocks r))
                       / fl (real (length (resp_blocks r))))"
    and m4: "ob_bbox m = ib_bbox placeholder"
    and m5: "ob_type m = ob_type (hd (resp_blocks r))"
    by blast
  have conf: "ob_confidence m = fl 0.8"
    unfolding m3 f len using mean_of_09_07 by simp
  show ?thesis
    using m1 m2 conf m4 m5 by (simp add: c ty placeholder_def)
qed

end
